theory Spec2Isabelle
  imports Main
begin

unbundle bit_operations_syntax

section \<open>Socket events and the event dispatcher\<close>

text \<open>
  Objects are referred to by pointers in the source. A pointer is modelled as a natural
  number identifying the object; \<open>0\<close> is the null pointer, so the source's test
  \<^verbatim>\<open>if (p)\<close> reads \<open>p \<noteq> 0\<close>.
\<close>

type_synonym ptr = nat

datatype EventType = hostaddress | connection_next | connection | read | "write" | close

text \<open>
  \<^verbatim>\<open>CSocketEvent\<close>: the textual payload \<open>m_data\<close> is a null pointer unless the event was
  built by the constructor taking a string.
\<close>

record CSocketEvent =
  m_pSource :: ptr
  m_type :: EventType
  m_data :: "string option"
  m_error :: int
  m_pSocketEventHandler :: ptr

definition CSocketEvent_data :: "ptr \<Rightarrow> ptr \<Rightarrow> EventType \<Rightarrow> string option \<Rightarrow> CSocketEvent" where
  "CSocketEvent_data pSocketEventHandler pSource type data =
     \<lparr>m_pSource = pSource, m_type = type, m_data = data, m_error = 0,
      m_pSocketEventHandler = pSocketEventHandler\<rparr>"

definition CSocketEvent_error :: "ptr \<Rightarrow> ptr \<Rightarrow> EventType \<Rightarrow> int \<Rightarrow> CSocketEvent" where
  "CSocketEvent_error pSocketEventHandler pSource type error =
     \<lparr>m_pSource = pSource, m_type = type, m_data = None, m_error = error,
      m_pSocketEventHandler = pSocketEventHandler\<rparr>"

text \<open>
  The dispatcher's queue \<open>m_pending_events\<close> is a list of events, oldest first.
  \<^verbatim>\<open>SendEvent\<close> appends at the back.
\<close>

definition SendEvent :: "CSocketEvent \<Rightarrow> CSocketEvent list \<Rightarrow> CSocketEvent list" where
  "SendEvent evt m_pending_events = m_pending_events @ [evt]"

text \<open>
  Both overloads of \<^verbatim>\<open>RemovePending\<close> run the same compaction loop: \<open>iter\<close> walks the
  queue, every event that is kept is copied down to position \<open>remaining\<close>, and the tail
  from \<open>remaining\<close> on is erased afterwards. The loop is modelled with the two iterators
  as indices into the list; \<open>keep\<close> is the test of the \<^verbatim>\<open>if\<close>.
\<close>

function RemovePending_loop ::
  "(CSocketEvent \<Rightarrow> bool) \<Rightarrow> CSocketEvent list \<Rightarrow> nat \<Rightarrow> nat \<Rightarrow> CSocketEvent list \<times> nat" where
  "RemovePending_loop keep q remaining iter =
     (if iter < length q then
        (if keep (q ! iter)
         then RemovePending_loop keep (q[remaining := q ! iter]) (Suc remaining) (Suc iter)
         else RemovePending_loop keep q remaining (Suc iter))
      else (q, remaining))"
  by pat_completeness auto
termination
  by (relation "measure (\<lambda>(keep, q, remaining, iter). length q - iter)") auto

declare RemovePending_loop.simps [simp del]

definition RemovePending_handler :: "ptr \<Rightarrow> CSocketEvent list \<Rightarrow> CSocketEvent list" where
  "RemovePending_handler pHandler m_pending_events =
     (case RemovePending_loop (\<lambda>e. m_pSocketEventHandler e \<noteq> pHandler) m_pending_events 0 0 of
        (q, remaining) \<Rightarrow> take remaining q)"

definition RemovePending_source :: "ptr \<Rightarrow> CSocketEvent list \<Rightarrow> CSocketEvent list" where
  "RemovePending_source pSource m_pending_events =
     (case RemovePending_loop (\<lambda>e. m_pSource e \<noteq> pSource) m_pending_events 0 0 of
        (q, remaining) \<Rightarrow> take remaining q)"

text \<open>
  \<^verbatim>\<open>UpdatePending\<close> visits every queued event once and overwrites the source and the
  handler of those that match both the old source and the old handler.
\<close>

definition UpdatePending ::
  "ptr \<Rightarrow> ptr \<Rightarrow> ptr \<Rightarrow> ptr \<Rightarrow> CSocketEvent list \<Rightarrow> CSocketEvent list" where
  "UpdatePending pOldHandler pOldSource pNewHandler pNewSource m_pending_events =
     map (\<lambda>evt. if m_pSource evt \<noteq> pOldSource \<or> m_pSocketEventHandler evt \<noteq> pOldHandler
                then evt
                else evt\<lparr>m_pSource := pNewSource, m_pSocketEventHandler := pNewHandler\<rparr>)
         m_pending_events"

section \<open>Platform constants\<close>

text \<open>
  The error codes and the address family are macros of the system headers, which are not
  part of the repository. They are given the values of the Linux (glibc) headers; the
  code only ever compares them for equality.
\<close>

definition EPERM :: int where "EPERM = 1"
definition EINTR :: int where "EINTR = 4"
definition EBADF :: int where "EBADF = 9"
definition EAGAIN :: int where "EAGAIN = 11"
definition ENOMEM :: int where "ENOMEM = 12"
definition EACCES :: int where "EACCES = 13"
definition EFAULT :: int where "EFAULT = 14"
definition EINVAL :: int where "EINVAL = 22"
definition ENFILE :: int where "ENFILE = 23"
definition EMFILE :: int where "EMFILE = 24"
definition EPIPE :: int where "EPIPE = 32"
definition ENOTSOCK :: int where "ENOTSOCK = 88"
definition EMSGSIZE :: int where "EMSGSIZE = 90"
definition EPROTONOSUPPORT :: int where "EPROTONOSUPPORT = 93"
definition EOPNOTSUPP :: int where "EOPNOTSUPP = 95"
definition EAFNOSUPPORT :: int where "EAFNOSUPPORT = 97"
definition EADDRINUSE :: int where "EADDRINUSE = 98"
definition ENETUNREACH :: int where "ENETUNREACH = 101"
definition ENETRESET :: int where "ENETRESET = 102"
definition ECONNABORTED :: int where "ECONNABORTED = 103"
definition ECONNRESET :: int where "ECONNRESET = 104"
definition ENOBUFS :: int where "ENOBUFS = 105"
definition EISCONN :: int where "EISCONN = 106"
definition ENOTCONN :: int where "ENOTCONN = 107"
definition ESHUTDOWN :: int where "ESHUTDOWN = 108"
definition ETIMEDOUT :: int where "ETIMEDOUT = 110"
definition ECONNREFUSED :: int where "ECONNREFUSED = 111"
definition EHOSTUNREACH :: int where "EHOSTUNREACH = 113"
definition EALREADY :: int where "EALREADY = 114"
definition EINPROGRESS :: int where "EINPROGRESS = 115"

definition EAI_BADFLAGS :: int where "EAI_BADFLAGS = - 1"
definition EAI_NONAME :: int where "EAI_NONAME = - 2"
definition EAI_AGAIN :: int where "EAI_AGAIN = - 3"
definition EAI_FAIL :: int where "EAI_FAIL = - 4"
definition EAI_NODATA :: int where "EAI_NODATA = - 5"
definition EAI_FAMILY :: int where "EAI_FAMILY = - 6"
definition EAI_SOCKTYPE :: int where "EAI_SOCKTYPE = - 7"
definition EAI_SERVICE :: int where "EAI_SERVICE = - 8"
definition EAI_ADDRFAMILY :: int where "EAI_ADDRFAMILY = - 9"
definition EAI_MEMORY :: int where "EAI_MEMORY = - 10"
definition EAI_SYSTEM :: int where "EAI_SYSTEM = - 11"
definition EAI_OVERFLOW :: int where "EAI_OVERFLOW = - 12"

definition AF_UNSPEC :: int where "AF_UNSPEC = 0"
definition AF_INET :: int where "AF_INET = 2"
definition AF_INET6 :: int where "AF_INET6 = 10"

lemmas errno_defs =
  EPERM_def EINTR_def EBADF_def EAGAIN_def ENOMEM_def EACCES_def EFAULT_def EINVAL_def
  ENFILE_def EMFILE_def EPIPE_def ENOTSOCK_def EMSGSIZE_def EPROTONOSUPPORT_def
  EOPNOTSUPP_def EAFNOSUPPORT_def EADDRINUSE_def ENETUNREACH_def ENETRESET_def
  ECONNABORTED_def ECONNRESET_def ENOBUFS_def EISCONN_def ENOTCONN_def ESHUTDOWN_def
  ETIMEDOUT_def ECONNREFUSED_def EHOSTUNREACH_def EALREADY_def EINPROGRESS_def
  EAI_BADFLAGS_def EAI_NONAME_def EAI_AGAIN_def EAI_FAIL_def EAI_NODATA_def
  EAI_FAMILY_def EAI_SOCKTYPE_def EAI_SERVICE_def EAI_ADDRFAMILY_def EAI_MEMORY_def
  EAI_SYSTEM_def EAI_OVERFLOW_def

section \<open>Formatting numbers\<close>

text \<open>
  \<^verbatim>\<open>wxString::Format("%d", n)\<close> and \<^verbatim>\<open>sprintf("%u", n)\<close> produce the decimal rendering
  of their argument: the digits, most significant first, without leading zeros, after a
  minus sign when the number is negative.
\<close>

definition digit_char :: "nat \<Rightarrow> char" where
  "digit_char d = ''0123456789'' ! d"

function dec_nat :: "nat \<Rightarrow> string" where
  "dec_nat n = (if n < 10 then [digit_char n] else dec_nat (n div 10) @ [digit_char (n mod 10)])"
  by pat_completeness auto
termination
  by (relation "measure id") auto

declare dec_nat.simps [simp del]

definition Format_d :: "int \<Rightarrow> string" where
  "Format_d n = (if n < 0 then CHR ''-'' # dec_nat (nat (- n)) else dec_nat (nat n))"

definition Format_u :: "nat \<Rightarrow> string" where
  "Format_u n = dec_nat n"

section \<open>The error table\<close>

text \<open>
  The entries of the error table are written with the macros of the system headers, so
  the table depends on the platform the code is compiled for. The platform is a
  parameter of the model, in three parts: \<open>wxmsw\<close> tells whether \<^verbatim>\<open>__WXMSW__\<close> is defined
  (the build for Windows), \<open>defined c\<close> whether the system headers define the macro named
  \<open>c\<close>, and \<open>val c\<close> is the value they give it.

  The source adds definitions of its own. On Windows the header of the socket class
  defines each of the names in \<open>msw_fallbacks\<close> that the system headers lack as the macro
  of the same name with \<^verbatim>\<open>WSA\<close> in front. Where \<^verbatim>\<open>EAI_ADDRFAMILY\<close> is missing and
  \<^verbatim>\<open>EAI_FAMILY\<close> is not, \<^verbatim>\<open>EAI_ADDRFAMILY\<close> is defined as \<^verbatim>\<open>EAI_FAMILY\<close> ("fixups needed on
  FreeBSD"). \<open>macro_value\<close> is the value of a macro after these definitions.
\<close>

definition msw_fallbacks :: "string list" where
  "msw_fallbacks =
     [''EISCONN'', ''EINPROGRESS'', ''EAFNOSUPPORT'', ''EADDRINUSE'', ''ENOBUFS'',
      ''EPROTONOSUPPORT'', ''EALREADY'', ''ECONNREFUSED'', ''ENOTSOCK'', ''ETIMEDOUT'',
      ''ENETUNREACH'', ''EHOSTUNREACH'', ''ENOTCONN'', ''ENETRESET'', ''EOPNOTSUPP'',
      ''ESHUTDOWN'', ''EMSGSIZE'', ''ECONNABORTED'', ''ECONNRESET'']"

definition macro_value :: "bool \<Rightarrow> (string \<Rightarrow> bool) \<Rightarrow> (string \<Rightarrow> int) \<Rightarrow> string \<Rightarrow> int" where
  "macro_value wxmsw defined val c =
     (if c = ''EAI_ADDRFAMILY'' \<and> \<not> defined ''EAI_ADDRFAMILY'' \<and> defined ''EAI_FAMILY''
      then val ''EAI_FAMILY''
      else if wxmsw \<and> c \<in> set msw_fallbacks \<and> \<not> defined c then val (''WSA'' @ c)
      else val c)"

text \<open>
  An entry \<^verbatim>\<open>ERRORDECL(c, desc)\<close> of the table holds the value of the macro \<open>c\<close>, the
  name \<open>c\<close> itself as a string (the macro \<^verbatim>\<open>#c\<close> does not expand its argument) and the
  description. The last entry of the table is the terminating entry with code \<open>0\<close> and
  null strings, which are never read and are modelled as empty strings.
\<close>

record Error_table =
  code :: int
  name :: string
  description :: string

definition ERRORDECL ::
  "bool \<Rightarrow> (string \<Rightarrow> bool) \<Rightarrow> (string \<Rightarrow> int) \<Rightarrow> string \<Rightarrow> string \<Rightarrow> Error_table" where
  "ERRORDECL wxmsw defined val c desc =
     \<lparr>code = macro_value wxmsw defined val c, name = c, description = desc\<rparr>"

definition error_table ::
  "bool \<Rightarrow> (string \<Rightarrow> bool) \<Rightarrow> (string \<Rightarrow> int) \<Rightarrow> Error_table list" where
  "error_table wxmsw defined val =
     (let E = ERRORDECL wxmsw defined val in
      [E ''EACCES'' ''Permission denied'',
       E ''EADDRINUSE'' ''Local address in use'',
       E ''EAFNOSUPPORT'' ''The specified address family is not supported'',
       E ''EINPROGRESS'' ''Operation in progress'',
       E ''EINVAL'' ''Invalid argument passed'',
       E ''EMFILE'' ''Process file table overflow'',
       E ''ENFILE'' ''System limit of open files exceeded'',
       E ''ENOBUFS'' ''Out of memory'',
       E ''ENOMEM'' ''Out of memory'',
       E ''EPERM'' ''Permission denied'',
       E ''EPROTONOSUPPORT'' ''Protocol not supported'',
       E ''EAGAIN'' ''Resource temporarily unavailable'',
       E ''EALREADY'' ''Operation already in progress'',
       E ''EBADF'' ''Bad file descriptor'',
       E ''ECONNREFUSED'' ''Connection refused by server'',
       E ''EFAULT'' ''Socket address outside address space'',
       E ''EINTR'' ''Interrupted by signal'',
       E ''EISCONN'' ''Socket already connected'',
       E ''ENETUNREACH'' ''Network unreachable'',
       E ''ENOTSOCK'' ''File descriptor not a socket'',
       E ''ETIMEDOUT'' ''Connection attempt timed out'',
       E ''EHOSTUNREACH'' ''No route to host'',
       E ''ENOTCONN'' ''Socket not connected'',
       E ''ENETRESET'' ''Connection reset by network'',
       E ''EOPNOTSUPP'' ''Operation not supported'',
       E ''ESHUTDOWN'' ''Socket has been shut down'',
       E ''EMSGSIZE'' ''Message too large'',
       E ''ECONNABORTED'' ''Connection aborted'',
       E ''ECONNRESET'' ''Connection reset by peer'',
       E ''EPIPE'' ''Local endpoint has been closed''] @
      (if \<not> wxmsw then
         [E ''EAI_ADDRFAMILY''
            ''Network host does not have any network addresses in the requested address family'']
       else []) @
      [E ''EAI_AGAIN'' ''Temporary failure in name resolution'',
       E ''EAI_BADFLAGS'' ''Invalid value for ai_flags''] @
      (if defined ''EAI_BADHINTS'' then [E ''EAI_BADHINTS'' ''Invalid value for hints'']
       else []) @
      [E ''EAI_FAIL'' ''Nonrecoverable failure in name resolution'',
       E ''EAI_FAMILY'' ''The ai_family member is not supported'',
       E ''EAI_MEMORY'' ''Memory allocation failure''] @
      (if defined ''EAI_NODATA''
       then [E ''EAI_NODATA'' ''No address associated with nodename'']
       else []) @
      [E ''EAI_NONAME'' ''Neither nodename nor servname provided, or not known''] @
      (if defined ''EAI_OVERFLOW'' then [E ''EAI_OVERFLOW'' ''Argument buffer overflow'']
       else []) @
      (if defined ''EAI_PROTOCOL'' then [E ''EAI_PROTOCOL'' ''Resolved protocol is unknown'']
       else []) @
      [E ''EAI_SERVICE'' ''The servname parameter is not supported for ai_socktype'',
       E ''EAI_SOCKTYPE'' ''The ai_socktype member is not supported''] @
      (if \<not> wxmsw then [E ''EAI_SYSTEM'' ''Other system error''] else []) @
      (if wxmsw then
         [E ''WSANOTINITIALISED'' ''Not initialized, need to call WSAStartup'',
          E ''WSAENETDOWN'' ''System's network subsystem has failed'',
          E ''WSAEPROTOTYPE'' ''Protocol not supported on given socket type'',
          E ''WSAESOCKTNOSUPPORT'' ''Socket type not supported for address family'',
          E ''WSAEADDRNOTAVAIL'' ''Cannot assign requested address'',
          E ''ERROR_NETNAME_DELETED'' ''The specified network name is no longer available'']
       else []) @
      [\<lparr>code = 0, name = [], description = []\<rparr>])"

text \<open>
  Both lookup functions scan the table with
  \<^verbatim>\<open>for (int i = 0; error_table[i].code; ++i)\<close>, skip the entries whose code differs and
  return at the first entry whose code is equal. \<open>scan_error_table\<close> is that loop; it
  returns the entry found, or \<open>None\<close> when the loop ends at an entry with code \<open>0\<close>.
  (The end of the list is never reached in a table that ends with the terminating entry.)
\<close>

fun scan_error_table :: "Error_table list \<Rightarrow> int \<Rightarrow> Error_table option" where
  "scan_error_table [] error = None"
| "scan_error_table (e # es) error =
     (if code e = 0 then None
      else if error \<noteq> code e then scan_error_table es error
      else Some e)"

definition GetErrorString ::
  "bool \<Rightarrow> (string \<Rightarrow> bool) \<Rightarrow> (string \<Rightarrow> int) \<Rightarrow> int \<Rightarrow> string" where
  "GetErrorString wxmsw defined val error =
     (case scan_error_table (error_table wxmsw defined val) error of
        Some e \<Rightarrow> name e
      | None \<Rightarrow> Format_d error)"

text \<open>
  \<^verbatim>\<open>wxGetTranslation\<close> looks the description up in the message catalogue of the running
  program; it is the parameter \<open>wxGetTranslation\<close> of the model.
\<close>

definition GetErrorDescription ::
  "bool \<Rightarrow> (string \<Rightarrow> bool) \<Rightarrow> (string \<Rightarrow> int) \<Rightarrow> (string \<Rightarrow> string) \<Rightarrow> int \<Rightarrow> string" where
  "GetErrorDescription wxmsw defined val wxGetTranslation error =
     (case scan_error_table (error_table wxmsw defined val) error of
        Some e \<Rightarrow> name e @ '' - '' @ wxGetTranslation (description e)
      | None \<Rightarrow> Format_d error)"

text \<open>The entries of the table that the scan can reach: those before the first code \<open>0\<close>.\<close>

definition error_entries ::
  "bool \<Rightarrow> (string \<Rightarrow> bool) \<Rightarrow> (string \<Rightarrow> int) \<Rightarrow> Error_table list" where
  "error_entries wxmsw defined val =
     takeWhile (\<lambda>e. code e \<noteq> 0) (error_table wxmsw defined val)"

subsection \<open>Two platforms\<close>

text \<open>
  Linux with the glibc headers: every name of the table is defined except
  \<^verbatim>\<open>EAI_BADHINTS\<close> and \<^verbatim>\<open>EAI_PROTOCOL\<close>, with the values given above.
\<close>

definition glibc_defined :: "string \<Rightarrow> bool" where
  "glibc_defined c = (c \<noteq> ''EAI_BADHINTS'' \<and> c \<noteq> ''EAI_PROTOCOL'')"

definition glibc_values :: "(string \<times> int) list" where
  "glibc_values =
     [(''EACCES'', EACCES), (''EADDRINUSE'', EADDRINUSE), (''EAFNOSUPPORT'', EAFNOSUPPORT),
      (''EINPROGRESS'', EINPROGRESS), (''EINVAL'', EINVAL), (''EMFILE'', EMFILE),
      (''ENFILE'', ENFILE), (''ENOBUFS'', ENOBUFS), (''ENOMEM'', ENOMEM), (''EPERM'', EPERM),
      (''EPROTONOSUPPORT'', EPROTONOSUPPORT), (''EAGAIN'', EAGAIN), (''EALREADY'', EALREADY),
      (''EBADF'', EBADF), (''ECONNREFUSED'', ECONNREFUSED), (''EFAULT'', EFAULT),
      (''EINTR'', EINTR), (''EISCONN'', EISCONN), (''ENETUNREACH'', ENETUNREACH),
      (''ENOTSOCK'', ENOTSOCK), (''ETIMEDOUT'', ETIMEDOUT), (''EHOSTUNREACH'', EHOSTUNREACH),
      (''ENOTCONN'', ENOTCONN), (''ENETRESET'', ENETRESET), (''EOPNOTSUPP'', EOPNOTSUPP),
      (''ESHUTDOWN'', ESHUTDOWN), (''EMSGSIZE'', EMSGSIZE), (''ECONNABORTED'', ECONNABORTED),
      (''ECONNRESET'', ECONNRESET), (''EPIPE'', EPIPE), (''EAI_ADDRFAMILY'', EAI_ADDRFAMILY),
      (''EAI_AGAIN'', EAI_AGAIN), (''EAI_BADFLAGS'', EAI_BADFLAGS), (''EAI_FAIL'', EAI_FAIL),
      (''EAI_FAMILY'', EAI_FAMILY), (''EAI_MEMORY'', EAI_MEMORY), (''EAI_NODATA'', EAI_NODATA),
      (''EAI_NONAME'', EAI_NONAME), (''EAI_OVERFLOW'', EAI_OVERFLOW),
      (''EAI_SERVICE'', EAI_SERVICE), (''EAI_SOCKTYPE'', EAI_SOCKTYPE),
      (''EAI_SYSTEM'', EAI_SYSTEM)]"

definition glibc_val :: "string \<Rightarrow> int" where
  "glibc_val c = (case map_of glibc_values c of Some v \<Rightarrow> v | None \<Rightarrow> 0)"

text \<open>
  FreeBSD: its headers define neither \<^verbatim>\<open>EAI_ADDRFAMILY\<close> nor \<^verbatim>\<open>EAI_NODATA\<close>, so the
  definition of \<^verbatim>\<open>EAI_ADDRFAMILY\<close> as \<^verbatim>\<open>EAI_FAMILY\<close> applies. The values are those of the
  FreeBSD headers.
\<close>

definition freebsd_defined :: "string \<Rightarrow> bool" where
  "freebsd_defined c = (c \<noteq> ''EAI_ADDRFAMILY'' \<and> c \<noteq> ''EAI_NODATA'')"

definition freebsd_values :: "(string \<times> int) list" where
  "freebsd_values =
     [(''EACCES'', 13), (''EADDRINUSE'', 48), (''EAFNOSUPPORT'', 47), (''EINPROGRESS'', 36),
      (''EINVAL'', 22), (''EMFILE'', 24), (''ENFILE'', 23), (''ENOBUFS'', 55),
      (''ENOMEM'', 12), (''EPERM'', 1), (''EPROTONOSUPPORT'', 43), (''EAGAIN'', 35),
      (''EALREADY'', 37), (''EBADF'', 9), (''ECONNREFUSED'', 61), (''EFAULT'', 14),
      (''EINTR'', 4), (''EISCONN'', 56), (''ENETUNREACH'', 51), (''ENOTSOCK'', 38),
      (''ETIMEDOUT'', 60), (''EHOSTUNREACH'', 65), (''ENOTCONN'', 57), (''ENETRESET'', 52),
      (''EOPNOTSUPP'', 45), (''ESHUTDOWN'', 58), (''EMSGSIZE'', 40), (''ECONNABORTED'', 53),
      (''ECONNRESET'', 54), (''EPIPE'', 32), (''EAI_AGAIN'', 2), (''EAI_BADFLAGS'', 3),
      (''EAI_FAIL'', 4), (''EAI_FAMILY'', 5), (''EAI_MEMORY'', 6), (''EAI_NONAME'', 8),
      (''EAI_SERVICE'', 9), (''EAI_SOCKTYPE'', 10), (''EAI_SYSTEM'', 11),
      (''EAI_BADHINTS'', 12), (''EAI_PROTOCOL'', 13), (''EAI_OVERFLOW'', 14)]"

definition freebsd_val :: "string \<Rightarrow> int" where
  "freebsd_val c = (case map_of freebsd_values c of Some v \<Rightarrow> v | None \<Rightarrow> 0)"

section \<open>Formatting addresses\<close>

text \<open>
  \<^verbatim>\<open>wxString::Find(ch)\<close> returns the index of the first occurrence of the character, or
  \<open>-1\<close> when there is none; \<^verbatim>\<open>Truncate(pos)\<close> keeps the first \<open>pos\<close> characters.
\<close>

fun Find :: "char \<Rightarrow> string \<Rightarrow> int" where
  "Find ch [] = - 1"
| "Find ch (x # xs) =
     (if x = ch then 0 else (let pos = Find ch xs in if pos = - 1 then - 1 else pos + 1))"

definition Truncate :: "int \<Rightarrow> string \<Rightarrow> string" where
  "Truncate pos s = take (nat pos) s"

text \<open>
  \<^verbatim>\<open>AddressToString\<close> asks \<^verbatim>\<open>getnameinfo\<close> for the numeric host and port of the address.
  The answer of the system is an input of the model: the return value \<open>res\<close> and the two
  strings written to \<open>hostbuf\<close> and \<open>portbuf\<close>; \<open>sa_family\<close> is the family field of the
  address.
\<close>

definition AddressToString :: "int \<Rightarrow> string \<Rightarrow> string \<Rightarrow> int \<Rightarrow> bool \<Rightarrow> bool \<Rightarrow> string" where
  "AddressToString res hostbuf portbuf sa_family with_port strip_zone_index =
     (if res \<noteq> 0 then []
      else
        let host = hostbuf;
            port = portbuf;
            host = (if sa_family = AF_INET6 then
                      let host = (if strip_zone_index then
                                    let pos = Find CHR ''%'' host
                                    in if pos \<noteq> - 1 then Truncate pos host else host
                                  else host)
                      in if with_port then ''['' @ host @ '']'' else host
                    else host)
        in if with_port then host @ '':'' @ port else host)"

section \<open>Windows error codes\<close>

text \<open>
  In the build for Windows (\<^verbatim>\<open>__WXMSW__\<close>) the error codes of the socket library are
  mapped to the codes above by \<^verbatim>\<open>ConvertMSWErrorCode\<close>. The \<^verbatim>\<open>WSA\<close> constants have the
  values of the Windows headers.
\<close>

definition WSA_NOT_ENOUGH_MEMORY :: int where "WSA_NOT_ENOUGH_MEMORY = 8"
definition WSAEINTR :: int where "WSAEINTR = 10004"
definition WSAEACCES :: int where "WSAEACCES = 10013"
definition WSAEFAULT :: int where "WSAEFAULT = 10014"
definition WSAEINVAL :: int where "WSAEINVAL = 10022"
definition WSAEMFILE :: int where "WSAEMFILE = 10024"
definition WSAEWOULDBLOCK :: int where "WSAEWOULDBLOCK = 10035"
definition WSAESOCKTNOSUPPORT :: int where "WSAESOCKTNOSUPPORT = 10044"
definition WSAEAFNOSUPPORT :: int where "WSAEAFNOSUPPORT = 10047"
definition WSAECONNABORTED :: int where "WSAECONNABORTED = 10053"
definition WSAECONNRESET :: int where "WSAECONNRESET = 10054"
definition WSAETIMEDOUT :: int where "WSAETIMEDOUT = 10060"
definition WSAECONNREFUSED :: int where "WSAECONNREFUSED = 10061"
definition WSATYPE_NOT_FOUND :: int where "WSATYPE_NOT_FOUND = 10109"
definition WSAHOST_NOT_FOUND :: int where "WSAHOST_NOT_FOUND = 11001"
definition WSANO_RECOVERY :: int where "WSANO_RECOVERY = 11003"
definition WSANO_DATA :: int where "WSANO_DATA = 11004"

lemmas wsa_defs =
  WSA_NOT_ENOUGH_MEMORY_def WSAEINTR_def WSAEACCES_def WSAEFAULT_def WSAEINVAL_def
  WSAEMFILE_def WSAEWOULDBLOCK_def WSAESOCKTNOSUPPORT_def WSAEAFNOSUPPORT_def
  WSAECONNABORTED_def WSAECONNRESET_def WSAETIMEDOUT_def WSAECONNREFUSED_def
  WSATYPE_NOT_FOUND_def WSAHOST_NOT_FOUND_def WSANO_RECOVERY_def WSANO_DATA_def

definition ConvertMSWErrorCode :: "int \<Rightarrow> int" where
  "ConvertMSWErrorCode error =
     (if error = WSAECONNREFUSED then ECONNREFUSED
      else if error = WSAECONNABORTED then ECONNABORTED
      else if error = WSAEINVAL then EAI_BADFLAGS
      else if error = WSANO_RECOVERY then EAI_FAIL
      else if error = WSAEAFNOSUPPORT then EAI_FAMILY
      else if error = WSA_NOT_ENOUGH_MEMORY then EAI_MEMORY
      else if error = WSANO_DATA then EAI_NODATA
      else if error = WSAHOST_NOT_FOUND then EAI_NONAME
      else if error = WSATYPE_NOT_FOUND then EAI_SERVICE
      else if error = WSAESOCKTNOSUPPORT then EAI_SOCKTYPE
      else if error = WSAEWOULDBLOCK then EAGAIN
      else if error = WSAEMFILE then EMFILE
      else if error = WSAEINTR then EINTR
      else if error = WSAEFAULT then EFAULT
      else if error = WSAEACCES then EACCES
      else if error = WSAETIMEDOUT then ETIMEDOUT
      else if error = WSAECONNRESET then ECONNRESET
      else error)"

text \<open>
  After a failed system call the code reads \<^verbatim>\<open>ConvertMSWErrorCode(WSAGetLastError())\<close>
  on Windows and \<^verbatim>\<open>errno\<close> elsewhere. \<open>last_error msw e\<close> is that value, where \<open>e\<close> is
  the code the system has set and \<open>msw\<close> tells whether the build is the one for Windows.
\<close>

definition last_error :: "bool \<Rightarrow> int \<Rightarrow> int" where
  "last_error msw e = (if msw then ConvertMSWErrorCode e else e)"

section \<open>The worker thread\<close>

definition WAIT_CONNECT :: int where "WAIT_CONNECT = 1"
definition WAIT_READ :: int where "WAIT_READ = 2"
definition WAIT_WRITE :: int where "WAIT_WRITE = 4"
definition WAIT_ACCEPT :: int where "WAIT_ACCEPT = 8"
definition WAIT_CLOSE :: int where "WAIT_CLOSE = 16"
definition WAIT_EVENTCOUNT :: nat where "WAIT_EVENTCOUNT = 5"

lemmas wait_defs =
  WAIT_CONNECT_def WAIT_READ_def WAIT_WRITE_def WAIT_ACCEPT_def WAIT_CLOSE_def
  WAIT_EVENTCOUNT_def

text \<open>
  \<^verbatim>\<open>CSocketThread\<close>. \<open>m_pSocket\<close> is the back pointer to the socket. The staged host is a
  string and the staged port a buffer of characters; \<open>None\<close> is the null pointer. The
  mutex protects every field and is not modelled: each function below runs from its
  call to its return without another thread in between. The wakeup primitive (the pipe,
  or the event object on Windows) and the condition variable are each modelled by the
  number of times they have been posted.
\<close>

record CSocketThread =
  m_pSocket :: ptr
  m_pHost :: "string option"
  m_pPort :: "char list option"
  m_started :: bool
  m_quit :: bool
  m_finished :: bool
  m_waiting :: int
  m_triggered :: int
  m_triggered_errors :: "int list"
  m_threadwait :: bool
  m_condition_signals :: nat
  m_wakeups :: nat

definition CSocketThread_new :: CSocketThread where
  "CSocketThread_new =
     \<lparr>m_pSocket = 0, m_pHost = None, m_pPort = None, m_started = False, m_quit = False,
      m_finished = False, m_waiting = 0, m_triggered = 0,
      m_triggered_errors = replicate WAIT_EVENTCOUNT 0, m_threadwait = False,
      m_condition_signals = 0, m_wakeups = 0\<rparr>"

definition SetSocket :: "ptr \<Rightarrow> CSocketThread \<Rightarrow> CSocketThread" where
  "SetSocket pSocket t = t\<lparr>m_pSocket := pSocket, m_pHost := None, m_pPort := None, m_waiting := 0\<rparr>"

text \<open>
  \<^verbatim>\<open>WakeupThread\<close>: nothing to do for a thread that has not started or has finished; a
  thread in its idle wait is signalled through the condition; otherwise the wakeup
  primitive is posted.
\<close>

definition WakeupThread :: "CSocketThread \<Rightarrow> CSocketThread" where
  "WakeupThread t =
     (if \<not> m_started t \<or> m_finished t then t
      else if m_threadwait t
      then t\<lparr>m_threadwait := False, m_condition_signals := m_condition_signals t + 1\<rparr>
      else t\<lparr>m_wakeups := m_wakeups t + 1\<rparr>)"

text \<open>
  \<^verbatim>\<open>Start\<close>. For a thread that has not started, the answers of the system are inputs:
  \<open>primitive_res\<close> is the value returned when the wakeup primitive cannot be created
  (\<open>0\<close> when it can) and \<open>create_ok\<close> tells whether the thread could be created.
\<close>

record start_sys =
  primitive_res :: int
  create_ok :: bool

definition Start :: "start_sys \<Rightarrow> CSocketThread \<Rightarrow> int \<times> CSocketThread" where
  "Start sys t =
     (if m_started t then (0, WakeupThread (t\<lparr>m_waiting := 0\<rparr>))
      else
        let t = t\<lparr>m_started := True\<rparr>
        in if primitive_res sys \<noteq> 0 then (primitive_res sys, t)
           else if \<not> create_ok sys then (1, t)
           else (0, t))"

text \<open>
  Writing to a character buffer of fixed size. A write outside the buffer is undefined
  behaviour in the source; the model makes it the value \<open>buffer_overflow\<close>.
  \<^verbatim>\<open>sprintf(buf, "%u", n)\<close> writes the decimal digits of \<open>n\<close> and a terminating zero from
  the start of the buffer.
\<close>

datatype fault = buffer_overflow

definition sprintf_u :: "char list \<Rightarrow> nat \<Rightarrow> fault + char list" where
  "sprintf_u buf n =
     (let out = Format_u n @ [CHR 0x00]
      in if length out \<le> length buf then Inr (out @ drop (length out) buf)
         else Inl buffer_overflow)"

definition store_char :: "char list \<Rightarrow> nat \<Rightarrow> char \<Rightarrow> fault + char list" where
  "store_char buf i c = (if i < length buf then Inr (buf[i := c]) else Inl buffer_overflow)"

definition c_str :: "char list \<Rightarrow> string" where
  "c_str buf = takeWhile (\<lambda>c. c \<noteq> CHR 0x00) buf"

text \<open>
  \<^verbatim>\<open>CSocketThread::Connect\<close> stages the host and the port of the socket and starts the
  thread. \<open>host_mb\<close> is the result of converting the host name of the socket to a
  multibyte string (\<open>None\<close> when the conversion fails), \<open>port\<close> is \<open>m_port\<close> of the socket.
  The buffer of six characters for the port is new memory, modelled as six zero bytes.
\<close>

definition CSocketThread_Connect ::
  "start_sys \<Rightarrow> string option \<Rightarrow> nat \<Rightarrow> CSocketThread \<Rightarrow> fault + int \<times> CSocketThread" where
  "CSocketThread_Connect sys host_mb port t =
     (case host_mb of
        None \<Rightarrow> Inr (EINVAL, t\<lparr>m_pHost := None, m_pPort := None\<rparr>)
      | Some buf \<Rightarrow>
          (case sprintf_u (replicate 6 (CHR 0x00)) port of
             Inl f \<Rightarrow> Inl f
           | Inr pPort \<Rightarrow>
               (case store_char pPort 5 (CHR 0x00) of
                  Inl f \<Rightarrow> Inl f
                | Inr pPort \<Rightarrow>
                    Inr (0, snd (Start sys (t\<lparr>m_pHost := Some buf, m_pPort := Some pPort\<rparr>))))))"

section \<open>The socket\<close>

datatype SocketState = none | listening | connecting | connected | closing | closed

text \<open>The enumeration \<^verbatim>\<open>address_family\<close>, by the values of its enumerators.\<close>

definition unspec :: int where "unspec = 0"
definition ipv4 :: int where "ipv4 = 1"
definition ipv6 :: int where "ipv6 = 2"

text \<open>
  \<^verbatim>\<open>CSocket\<close>. \<open>this\<close> is the address of the socket, by which events name their source.
  The worker is owned by the socket alone, so \<open>m_pSocketThread\<close> holds the worker itself,
  and \<open>None\<close> is the null pointer. \<open>dispatcher\<close> is the queue of pending events of the
  dispatcher the member \<^verbatim>\<open>dispatcher_\<close> refers to. Two parts of the state of the process
  are kept in the same record: \<open>closed_fds\<close>, the descriptors passed to \<^verbatim>\<open>close\<close> (or
  \<^verbatim>\<open>closesocket\<close>) so far, latest first, and the global list \<open>waiting_socket_threads\<close>.
  The option flags, the buffer sizes and the read callback are only handed to the system
  or to the consumer and are left out.
\<close>

record CSocket =
  this :: ptr
  m_pEvtHandler :: ptr
  m_fd :: int
  m_state :: SocketState
  m_pSocketThread :: "CSocketThread option"
  m_host :: string
  m_port :: nat
  m_family :: int
  dispatcher :: "CSocketEvent list"
  closed_fds :: "int list"
  waiting_socket_threads :: "CSocketThread list"

subsection \<open>Events sent by the worker\<close>

text \<open>
  \<^verbatim>\<open>SendCloseEvent\<close>. The functions of the worker take the worker \<open>t\<close> and the socket \<open>s\<close>
  its back pointer refers to. On Windows the function peeks one byte with \<^verbatim>\<open>recv\<close>
  unless the close carried an error; \<open>peek_res\<close> is the value that call returns. The
  first component of the result tells whether \<^verbatim>\<open>recv\<close> has been called.
\<close>

definition SendCloseEvent ::
  "bool \<Rightarrow> int \<Rightarrow> CSocketThread \<Rightarrow> CSocket \<Rightarrow> bool \<times> CSocketThread \<times> CSocket" where
  "SendCloseEvent msw peek_res t s =
     (if m_pSocket t = 0 \<or> m_pEvtHandler s = 0 then (False, t, s)
      else if msw \<and> m_triggered_errors t ! 4 = 0 \<and> peek_res > 0 then
        (if m_waiting t AND WAIT_READ = 0 then (True, t, s)
         else (True, t,
               s\<lparr>dispatcher :=
                   SendEvent (CSocketEvent_error (m_pEvtHandler s) (m_pSocket t) read 0)
                     (dispatcher s)\<rparr>))
      else
        (msw \<and> m_triggered_errors t ! 4 = 0,
         t\<lparr>m_triggered := m_triggered t AND NOT WAIT_CLOSE\<rparr>,
         s\<lparr>dispatcher :=
             SendEvent (CSocketEvent_error (m_pEvtHandler s) (m_pSocket t) close
                          (m_triggered_errors t ! 4))
               (dispatcher s)\<rparr>))"

text \<open>
  \<^verbatim>\<open>SendEvents\<close> has one block for each of the read, write and accept bits, of the form
  \<^verbatim>\<open>if (m_triggered & BIT) { send event(type, m_triggered_errors[i]); m_triggered &= ~BIT; }\<close>.
  \<open>send_triggered\<close> is that block. The read callback of the consumer, called in the
  block of the read bit before the event is sent, is not part of the model.
\<close>

definition send_triggered ::
  "int \<Rightarrow> EventType \<Rightarrow> nat \<Rightarrow> CSocketThread \<times> CSocket \<Rightarrow> CSocketThread \<times> CSocket" where
  "send_triggered wait_bit type i =
     (\<lambda>(t, s).
        if m_triggered t AND wait_bit \<noteq> 0 then
          (t\<lparr>m_triggered := m_triggered t AND NOT wait_bit\<rparr>,
           s\<lparr>dispatcher :=
               SendEvent (CSocketEvent_error (m_pEvtHandler s) (m_pSocket t) type
                            (m_triggered_errors t ! i))
                 (dispatcher s)\<rparr>)
        else (t, s))"

definition SendEvents ::
  "bool \<Rightarrow> int \<Rightarrow> CSocketThread \<Rightarrow> CSocket \<Rightarrow> CSocketThread \<times> CSocket" where
  "SendEvents msw peek_res t s =
     (if m_pSocket t = 0 \<or> m_pEvtHandler s = 0 then (t, s)
      else
        (case send_triggered WAIT_ACCEPT connection 3
                (send_triggered WAIT_WRITE write 2
                   (send_triggered WAIT_READ read 1 (t, s))) of
           (t, s) \<Rightarrow>
             if m_triggered t AND WAIT_CLOSE \<noteq> 0 then snd (SendCloseEvent msw peek_res t s)
             else (t, s)))"

subsection \<open>Connecting\<close>

text \<open>
  A resolved address: its family and the answer of \<^verbatim>\<open>getnameinfo\<close> for it, from which
  \<^verbatim>\<open>AddressToString\<close> makes the text of the host address event.
\<close>

record addrinfo =
  ai_family :: int
  ni_res :: int
  ni_host :: string
  ni_port :: string

text \<open>
  The answers of the system to one connection attempt are inputs of the model:
  the value returned by \<^verbatim>\<open>socket\<close> and the error code it sets, the value returned by
  \<^verbatim>\<open>connect\<close> and the error code it sets, and the outcome of the wait for the connection
  to complete. The wait repeats \<^verbatim>\<open>DoWait(WAIT_CONNECT)\<close>, which blocks in the system with
  the mutex released, until the wait fails (\<open>wait_failed\<close>) or the completion of the
  connection is observed with an error code (\<open>connect_triggered\<close>); \<open>wait_blocks\<close> stands
  for a wait that never returns.
\<close>

datatype wait_result = wait_failed | connect_triggered int | wait_blocks

record attempt_sys =
  socket_res :: int
  socket_error :: int
  connect_ret :: int
  connect_error :: int
  wait :: wait_result

text \<open>
  The end of \<^verbatim>\<open>TryConnectHost\<close>, from \<^verbatim>\<open>if (res)\<close> on: a failed attempt sends
  \<^verbatim>\<open>connection_next\<close> or \<^verbatim>\<open>connection\<close> with the error and closes the descriptor; a
  successful one records the descriptor, sets the state and sends \<^verbatim>\<open>connection\<close> with
  error \<open>0\<close>.
\<close>

definition TryConnectHost_finish ::
  "bool \<Rightarrow> int \<Rightarrow> int \<Rightarrow> CSocketThread \<Rightarrow> CSocket \<Rightarrow> int \<times> CSocketThread \<times> CSocket" where
  "TryConnectHost_finish ai_next fd res t s =
     (if res \<noteq> 0 then
        let s = (if m_pEvtHandler s \<noteq> 0 then
                   s\<lparr>dispatcher :=
                       SendEvent (CSocketEvent_error (m_pEvtHandler s) (m_pSocket t)
                                    (if ai_next then connection_next else connection) res)
                         (dispatcher s)\<rparr>
                 else s)
        in (0, t, s\<lparr>m_fd := - 1, closed_fds := fd # closed_fds s\<rparr>)
      else
        let s = s\<lparr>m_fd := fd, m_state := connected\<rparr>;
            s = (if m_pEvtHandler s \<noteq> 0 then
                   s\<lparr>dispatcher :=
                       SendEvent (CSocketEvent_error (m_pEvtHandler s) (m_pSocket t) connection 0)
                         (dispatcher s)\<rparr>
                 else s)
        in (1, t\<lparr>m_waiting := m_waiting t OR WAIT_READ OR WAIT_WRITE\<rparr>, s))"

text \<open>
  The value of \<open>res\<close> in \<^verbatim>\<open>TryConnectHost\<close> after the call of \<^verbatim>\<open>connect\<close>: the value
  returned, replaced when it is \<open>-1\<close> by the error code, which on Windows is mapped to
  \<^verbatim>\<open>EINPROGRESS\<close> if it is \<^verbatim>\<open>WSAEWOULDBLOCK\<close> and converted otherwise.
\<close>

definition connect_result :: "bool \<Rightarrow> attempt_sys \<Rightarrow> int" where
  "connect_result msw sys =
     (let res = connect_ret sys
      in if res = - 1 then
           (if msw then
              (if connect_error sys = WSAEWOULDBLOCK then EINPROGRESS
               else ConvertMSWErrorCode (connect_error sys))
            else connect_error sys)
         else res)"

text \<open>
  \<^verbatim>\<open>TryConnectHost\<close>; \<open>ai_next\<close> tells whether another address follows in the list. The
  result is \<open>None\<close> when the wait never returns.
\<close>

definition TryConnectHost ::
  "bool \<Rightarrow> addrinfo \<Rightarrow> bool \<Rightarrow> attempt_sys \<Rightarrow> CSocketThread \<Rightarrow> CSocket \<Rightarrow>
   (int \<times> CSocketThread \<times> CSocket) option" where
  "TryConnectHost msw addr ai_next sys t s =
     (let s = (if m_pEvtHandler s \<noteq> 0 then
                 s\<lparr>dispatcher :=
                     SendEvent (CSocketEvent_data (m_pEvtHandler s) (m_pSocket t) hostaddress
                                  (Some (AddressToString (ni_res addr) (ni_host addr)
                                           (ni_port addr) (ai_family addr) True False)))
                       (dispatcher s)\<rparr>
               else s);
          fd = socket_res sys
      in if fd = - 1 then
           let res = last_error msw (socket_error sys)
           in Some (0, t,
                    if m_pEvtHandler s \<noteq> 0 then
                      s\<lparr>dispatcher :=
                          SendEvent (CSocketEvent_error (m_pEvtHandler s) (m_pSocket t)
                                       (if ai_next then connection_next else connection) res)
                            (dispatcher s)\<rparr>
                    else s)
         else
           let res = connect_result msw sys
           in if res = EINPROGRESS then
                let s = s\<lparr>m_fd := fd\<rparr>;
                    t = t\<lparr>m_waiting := m_waiting t OR WAIT_CONNECT\<rparr>
                in (case wait sys of
                      wait_blocks \<Rightarrow> None
                    | wait_failed \<Rightarrow>
                        Some (- 1, t,
                              if m_pSocket t \<noteq> 0
                              then s\<lparr>m_fd := - 1, closed_fds := fd # closed_fds s\<rparr>
                              else s\<lparr>closed_fds := fd # closed_fds s\<rparr>)
                    | connect_triggered e \<Rightarrow>
                        let t = t\<lparr>m_triggered := m_triggered t OR WAIT_CONNECT,
                                   m_triggered_errors := (m_triggered_errors t)[0 := e],
                                   m_waiting := m_waiting t AND NOT WAIT_CONNECT\<rparr>;
                            t = t\<lparr>m_triggered := m_triggered t AND NOT WAIT_CONNECT\<rparr>;
                            res = m_triggered_errors t ! 0
                        in Some (TryConnectHost_finish ai_next fd res t s))
              else Some (TryConnectHost_finish ai_next fd res t s))"

text \<open>
  The loop of \<^verbatim>\<open>DoConnect\<close> over the resolved addresses, each paired with the answers of
  the system to its attempt. The loop ends by a \<^verbatim>\<open>return\<close> from inside (\<open>returned\<close>) or
  by reaching the end of the list (\<open>completed\<close>).
\<close>

datatype loop_exit = returned bool | completed

fun DoConnect_loop ::
  "bool \<Rightarrow> (addrinfo \<times> attempt_sys) list \<Rightarrow> CSocketThread \<Rightarrow> CSocket \<Rightarrow>
   (loop_exit \<times> CSocketThread \<times> CSocket) option" where
  "DoConnect_loop msw [] t s = Some (completed, t, s)"
| "DoConnect_loop msw ((addr, sys) # rest) t s =
     (case TryConnectHost msw addr (rest \<noteq> []) sys t s of
        None \<Rightarrow> None
      | Some (res, t, s) \<Rightarrow>
          if res = - 1 then
            Some (returned False, t, if m_pSocket t \<noteq> 0 then s\<lparr>m_state := closed\<rparr> else s)
          else if res \<noteq> 0 then Some (returned True, t, s)
          else DoConnect_loop msw rest t s)"

text \<open>The code of \<^verbatim>\<open>DoConnect\<close> after the loop.\<close>

definition DoConnect_after_loop :: "CSocketThread \<Rightarrow> CSocket \<Rightarrow> CSocket" where
  "DoConnect_after_loop t s =
     (let s = (if m_pEvtHandler s \<noteq> 0 then
                 s\<lparr>dispatcher :=
                     SendEvent (CSocketEvent_error (m_pEvtHandler s) (m_pSocket t) connection
                                  ECONNABORTED)
                       (dispatcher s)\<rparr>
               else s)
      in s\<lparr>m_state := closed\<rparr>)"

text \<open>
  \<^verbatim>\<open>DoConnect\<close>. The answer of \<^verbatim>\<open>getaddrinfo\<close> is an input: its return value and the list
  of addresses.
\<close>

definition DoConnect ::
  "bool \<Rightarrow> int \<Rightarrow> (addrinfo \<times> attempt_sys) list \<Rightarrow> CSocketThread \<Rightarrow> CSocket \<Rightarrow>
   (bool \<times> CSocketThread \<times> CSocket) option" where
  "DoConnect msw gai_res addressList t s =
     (if m_pHost t = None \<or> m_pPort t = None then Some (False, t, s\<lparr>m_state := closed\<rparr>)
      else
        let t = t\<lparr>m_pHost := None, m_pPort := None\<rparr>;
            res = gai_res
        in if m_quit t \<or> m_pSocket t = 0 then
             Some (False, t, if m_pSocket t \<noteq> 0 then s\<lparr>m_state := closed\<rparr> else s)
           else if m_state s \<noteq> connecting \<or> m_pHost t \<noteq> None then Some (False, t, s)
           else if res \<noteq> 0 then
             let res = (if msw then ConvertMSWErrorCode res else res);
                 s = (if m_pEvtHandler s \<noteq> 0 then
                        s\<lparr>dispatcher :=
                            SendEvent (CSocketEvent_error (m_pEvtHandler s) (m_pSocket t)
                                         connection res)
                              (dispatcher s)\<rparr>
                      else s)
             in Some (False, t, s\<lparr>m_state := closed\<rparr>)
           else
             (case DoConnect_loop msw addressList t s of
                None \<Rightarrow> None
              | Some (returned b, t, s) \<Rightarrow> Some (b, t, s)
              | Some (completed, t, s) \<Rightarrow> Some (False, t, DoConnect_after_loop t s)))"

subsection \<open>The functions of the owner\<close>

text \<open>
  \<^verbatim>\<open>Cleanup\<close> joins and deletes the threads of the global list that have finished, or all
  of them when \<open>force\<close> is set.
\<close>

definition Cleanup :: "bool \<Rightarrow> CSocket \<Rightarrow> CSocket" where
  "Cleanup force s =
     s\<lparr>waiting_socket_threads :=
         filter (\<lambda>pThread. \<not> force \<and> \<not> m_finished pThread) (waiting_socket_threads s)\<rparr>"

text \<open>
  \<^verbatim>\<open>DetachThread\<close>: a thread that has finished or has never started is deleted; a running
  thread is told to quit, woken and appended to the global list.
\<close>

definition DetachThread :: "CSocket \<Rightarrow> CSocket" where
  "DetachThread s =
     (case m_pSocketThread s of
        None \<Rightarrow> s
      | Some t \<Rightarrow>
          let t = SetSocket 0 t;
              s = (if m_finished t then s
                   else if \<not> m_started t then s
                   else s\<lparr>waiting_socket_threads :=
                            waiting_socket_threads s @ [WakeupThread (t\<lparr>m_quit := True\<rparr>)]\<rparr>)
          in Cleanup False (s\<lparr>m_pSocketThread := None\<rparr>))"

text \<open>
  \<^verbatim>\<open>CSocket::Connect\<close>. Inputs besides the arguments: \<open>threadwait_after_sleep\<close> tells
  whether the worker, woken while it was not in its idle wait, has reached the idle wait
  when the owner looks again after the sleep of 100 ms; \<open>host_mb\<close> is the conversion of
  the host name to a multibyte string; \<open>sys\<close> holds the answers to \<^verbatim>\<open>Start\<close>.
\<close>

definition Connect ::
  "bool \<Rightarrow> start_sys \<Rightarrow> string option \<Rightarrow> string \<Rightarrow> nat \<Rightarrow> int \<Rightarrow> CSocket \<Rightarrow>
   fault + int \<times> CSocket" where
  "Connect threadwait_after_sleep sys host_mb host port family s =
     (if m_state s \<noteq> none then Inr (EISCONN, s)
      else if port < 1 \<or> port > 65535 then Inr (EINVAL, s)
      else if family \<noteq> unspec \<and> family \<noteq> ipv4 \<and> family \<noteq> ipv6 then Inr (EINVAL, s)
      else
        let s = s\<lparr>m_family := (if family = unspec then AF_UNSPEC
                                else if family = ipv4 then AF_INET
                                else AF_INET6)\<rparr>;
            s = (case m_pSocketThread s of
                   None \<Rightarrow> s
                 | Some t \<Rightarrow>
                     if m_started t \<and> \<not> m_threadwait t then
                       let t = (WakeupThread t)\<lparr>m_threadwait := threadwait_after_sleep\<rparr>;
                           s = s\<lparr>m_pSocketThread := Some t\<rparr>
                       in if \<not> m_threadwait t then DetachThread s else s
                     else s);
            t = (case m_pSocketThread s of
                   None \<Rightarrow> SetSocket (this s) CSocketThread_new
                 | Some t \<Rightarrow> t);
            s = s\<lparr>m_state := connecting, m_host := host, m_port := port\<rparr>
        in (case CSocketThread_Connect sys host_mb (m_port s) t of
              Inl f \<Rightarrow> Inl f
            | Inr (res, t) \<Rightarrow>
                if res \<noteq> 0 then Inr (res, s\<lparr>m_state := none, m_pSocketThread := None\<rparr>)
                else Inr (EINPROGRESS, s\<lparr>m_pSocketThread := Some t\<rparr>)))"

text \<open>
  \<^verbatim>\<open>SetEventHandler\<close>. \<open>msw\<close> selects the branch for Windows; \<open>peek_res\<close> is the answer to
  the peek of \<^verbatim>\<open>SendCloseEvent\<close>, should it be reached. \<open>SetEventHandler_worker\<close> is the
  last block of the function, entered when the socket has a worker \<open>t\<close>.
\<close>

definition SetEventHandler_worker ::
  "bool \<Rightarrow> int \<Rightarrow> ptr \<Rightarrow> CSocketThread \<Rightarrow> CSocket \<Rightarrow> CSocket" where
  "SetEventHandler_worker msw peek_res pEvtHandler t s =
     (if pEvtHandler \<noteq> 0 \<and> m_state s = connected then
        (if msw then
           let s = (if m_waiting t AND WAIT_WRITE = 0 then
                      s\<lparr>dispatcher :=
                          SendEvent (CSocketEvent_error pEvtHandler (this s) write 0)
                            (dispatcher s)\<rparr>
                    else s);
               s = s\<lparr>dispatcher :=
                       SendEvent (CSocketEvent_error pEvtHandler (this s) read 0)
                         (dispatcher s)\<rparr>
           in if m_waiting t AND WAIT_WRITE \<noteq> 0 then
                s\<lparr>m_pSocketThread :=
                    Some (WakeupThread (t\<lparr>m_waiting := m_waiting t AND NOT WAIT_READ\<rparr>))\<rparr>
              else s
         else
           s\<lparr>m_pSocketThread :=
               Some (WakeupThread
                       (t\<lparr>m_waiting := m_waiting t OR (WAIT_READ OR WAIT_WRITE)\<rparr>))\<rparr>)
      else if pEvtHandler \<noteq> 0 \<and> m_state s = closing then
        (case SendEvents msw peek_res t s of
           (t, s) \<Rightarrow> s\<lparr>m_pSocketThread := Some t\<rparr>)
      else s)"

definition SetEventHandler :: "bool \<Rightarrow> int \<Rightarrow> ptr \<Rightarrow> CSocket \<Rightarrow> CSocket" where
  "SetEventHandler msw peek_res pEvtHandler s =
     (let s = (if pEvtHandler = 0 then
                 s\<lparr>dispatcher := RemovePending_handler (m_pEvtHandler s) (dispatcher s)\<rparr>
               else if m_pEvtHandler s \<noteq> 0 then
                 s\<lparr>dispatcher :=
                     UpdatePending (m_pEvtHandler s) (this s) pEvtHandler (this s) (dispatcher s)\<rparr>
               else s);
          s = s\<lparr>m_pEvtHandler := pEvtHandler\<rparr>
      in (case m_pSocketThread s of
            None \<Rightarrow> s
          | Some t \<Rightarrow> SetEventHandler_worker msw peek_res pEvtHandler t s))"

text \<open>\<^verbatim>\<open>Close\<close> returns \<open>0\<close> and the new state.\<close>

definition Close :: "CSocket \<Rightarrow> int \<times> CSocket" where
  "Close s =
     (let fd = m_fd s;
          s = s\<lparr>m_fd := - 1\<rparr>;
          s = (case m_pSocketThread s of
                 None \<Rightarrow> s
               | Some t \<Rightarrow>
                   let t = t\<lparr>m_pHost := None, m_pPort := None\<rparr>;
                       t = (if \<not> m_threadwait t then WakeupThread t else t)
                   in s\<lparr>m_pSocketThread := Some t\<rparr>);
          s = (if fd \<noteq> - 1 then s\<lparr>closed_fds := fd # closed_fds s\<rparr> else s);
          s = s\<lparr>m_state := none\<rparr>;
          s = (case m_pSocketThread s of
                 None \<Rightarrow> s
               | Some t \<Rightarrow>
                   s\<lparr>m_pSocketThread :=
                       Some (t\<lparr>m_triggered := 0,
                               m_triggered_errors := replicate WAIT_EVENTCOUNT 0\<rparr>)\<rparr>);
          s = (if m_pEvtHandler s \<noteq> 0 then
                 s\<lparr>dispatcher := RemovePending_handler (m_pEvtHandler s) (dispatcher s)\<rparr>
               else s)
      in (0, s))"

text \<open>
  \<^verbatim>\<open>Read\<close>, \<^verbatim>\<open>Peek\<close> and \<^verbatim>\<open>Write\<close> call \<^verbatim>\<open>recv\<close> or \<^verbatim>\<open>send\<close> on the descriptor. The value
  \<open>res\<close> the call returns and the error code \<open>e\<close> it sets when it fails are inputs. The
  result is the value returned, the value stored in \<open>error\<close> and the new state.
\<close>

definition Read :: "bool \<Rightarrow> int \<Rightarrow> int \<Rightarrow> CSocket \<Rightarrow> int \<times> int \<times> CSocket" where
  "Read msw res e s =
     (if res = - 1 then
        let error = last_error msw e
        in (res, error,
            if error = EAGAIN then
              (case m_pSocketThread s of
                 None \<Rightarrow> s
               | Some t \<Rightarrow>
                   if m_waiting t AND WAIT_READ = 0 then
                     s\<lparr>m_pSocketThread :=
                         Some (WakeupThread (t\<lparr>m_waiting := m_waiting t OR WAIT_READ\<rparr>))\<rparr>
                   else s)
            else s)
      else (res, 0, s))"

definition Peek :: "bool \<Rightarrow> int \<Rightarrow> int \<Rightarrow> CSocket \<Rightarrow> int \<times> int \<times> CSocket" where
  "Peek msw res e s =
     (if res = - 1 then (res, last_error msw e, s)
      else (res, 0, s))"

definition Write :: "bool \<Rightarrow> int \<Rightarrow> int \<Rightarrow> CSocket \<Rightarrow> int \<times> int \<times> CSocket" where
  "Write msw res e s =
     (if res = - 1 then
        let error = last_error msw e
        in (res, error,
            if error = EAGAIN then
              (case m_pSocketThread s of
                 None \<Rightarrow> s
               | Some t \<Rightarrow>
                   if m_waiting t AND WAIT_WRITE = 0 then
                     s\<lparr>m_pSocketThread :=
                         Some (WakeupThread (t\<lparr>m_waiting := m_waiting t OR WAIT_WRITE\<rparr>))\<rparr>
                   else s)
            else s)
      else (res, 0, s))"

section \<open>Notions used in the statements\<close>

text \<open>
  The changes \<^verbatim>\<open>Close\<close> makes to the worker, collected in one function for the proofs
  about \<^verbatim>\<open>Close\<close>.
\<close>

definition Close_worker :: "CSocketThread \<Rightarrow> CSocketThread" where
  "Close_worker t =
     (if \<not> m_threadwait t then WakeupThread (t\<lparr>m_pHost := None, m_pPort := None\<rparr>)
      else t\<lparr>m_pHost := None, m_pPort := None\<rparr>)
     \<lparr>m_triggered := 0, m_triggered_errors := replicate WAIT_EVENTCOUNT 0\<rparr>"

text \<open>
  What it means, in terms of the answers of the system, that the attempt to connect to an
  address fails with an error code: \<^verbatim>\<open>socket\<close> fails, or \<^verbatim>\<open>connect\<close> fails at once with a
  code other than \<^verbatim>\<open>EINPROGRESS\<close>, or the connection is in progress and its completion is
  observed with an error code that is not \<open>0\<close>. An attempt that succeeds, or whose wait
  fails or never returns, is not a failed attempt in this sense.
\<close>

definition attempt_failure :: "bool \<Rightarrow> attempt_sys \<Rightarrow> int option" where
  "attempt_failure msw sys =
     (if socket_res sys = - 1 then Some (last_error msw (socket_error sys))
      else if connect_result msw sys = EINPROGRESS then
        (case wait sys of
           connect_triggered e \<Rightarrow> if e \<noteq> 0 then Some e else None
         | _ \<Rightarrow> None)
      else if connect_result msw sys \<noteq> 0 then Some (connect_result msw sys)
      else None)"

text \<open>
  The events expected from a run of the loop in which every attempt fails, for the
  handler \<open>h\<close> and the source \<open>src\<close>: for each address its host address event and then
  \<^verbatim>\<open>connection_next\<close> with the error of the attempt if another address follows, and
  \<^verbatim>\<open>connection\<close> with that error if it is the last one.
\<close>

fun failure_events ::
  "bool \<Rightarrow> ptr \<Rightarrow> ptr \<Rightarrow> (addrinfo \<times> attempt_sys) list \<Rightarrow> CSocketEvent list" where
  "failure_events msw h src [] = []"
| "failure_events msw h src ((addr, sys) # rest) =
     CSocketEvent_data h src hostaddress
       (Some (AddressToString (ni_res addr) (ni_host addr) (ni_port addr) (ai_family addr)
                True False)) #
     (case attempt_failure msw sys of
        Some err \<Rightarrow>
          [CSocketEvent_error h src (if rest \<noteq> [] then connection_next else connection) err]
      | None \<Rightarrow> []) @
     failure_events msw h src rest"

section \<open>Example states\<close>

text \<open>A socket as its constructor leaves it, with an event handler and no worker.\<close>

definition fresh_socket :: CSocket where
  "fresh_socket =
     \<lparr>this = 1, m_pEvtHandler = 7, m_fd = - 1, m_state = none, m_pSocketThread = None,
      m_host = [], m_port = 0, m_family = AF_UNSPEC, dispatcher = [], closed_fds = [],
      waiting_socket_threads = []\<rparr>"

text \<open>
  A socket in the middle of a connection attempt: the worker runs, the host and port are
  staged, a read is triggered, and three events are pending, two of them for the handler
  of the socket.
\<close>

definition busy_worker :: CSocketThread where
  "busy_worker =
     \<lparr>m_pSocket = 1, m_pHost = Some ''localhost'',
      m_pPort = Some (''21'' @ replicate 4 (CHR 0x00)), m_started = True, m_quit = False,
      m_finished = False, m_waiting = 1, m_triggered = 2,
      m_triggered_errors = [0, 104, 0, 0, 0], m_threadwait = False,
      m_condition_signals = 0, m_wakeups = 0\<rparr>"

definition busy_socket :: CSocket where
  "busy_socket =
     \<lparr>this = 1, m_pEvtHandler = 7, m_fd = 5, m_state = connecting,
      m_pSocketThread = Some busy_worker,
      m_host = ''localhost'', m_port = 21, m_family = AF_INET,
      dispatcher = [CSocketEvent_error 7 1 read 0, CSocketEvent_error 8 1 read 0,
                    CSocketEvent_error 7 2 write 0],
      closed_fds = [], waiting_socket_threads = []\<rparr>"


definition closed_worker :: CSocketThread where
  "closed_worker =
     busy_worker\<lparr>m_pHost := None, m_pPort := None, m_triggered := 0,
                  m_triggered_errors := [0, 0, 0, 0, 0], m_wakeups := 1\<rparr>"

text \<open>
  A connected socket whose worker runs and waits for nothing: the read and write events
  have been sent and their bits cleared.
\<close>

definition connected_worker :: CSocketThread where
  "connected_worker =
     \<lparr>m_pSocket = 1, m_pHost = None, m_pPort = None, m_started = True, m_quit = False,
      m_finished = False, m_waiting = 0, m_triggered = 0,
      m_triggered_errors = [0, 0, 0, 0, 0], m_threadwait = False,
      m_condition_signals = 0, m_wakeups = 0\<rparr>"

definition connected_socket :: CSocket where
  "connected_socket =
     \<lparr>this = 1, m_pEvtHandler = 7, m_fd = 5, m_state = connected,
      m_pSocketThread = Some connected_worker,
      m_host = ''localhost'', m_port = 21, m_family = AF_INET,
      dispatcher = [], closed_fds = [], waiting_socket_threads = []\<rparr>"

text \<open>
  A socket whose peer has closed the connection: the worker has the close bit triggered
  without an error and waits for nothing.
\<close>

definition closing_worker :: CSocketThread where
  "closing_worker =
     \<lparr>m_pSocket = 1, m_pHost = None, m_pPort = None, m_started = True, m_quit = False,
      m_finished = False, m_waiting = 0, m_triggered = WAIT_CLOSE,
      m_triggered_errors = [0, 0, 0, 0, 0], m_threadwait = False,
      m_condition_signals = 0, m_wakeups = 0\<rparr>"

definition closing_socket :: CSocket where
  "closing_socket =
     \<lparr>this = 1, m_pEvtHandler = 7, m_fd = 5, m_state = closing,
      m_pSocketThread = Some closing_worker,
      m_host = ''localhost'', m_port = 21, m_family = AF_INET,
      dispatcher = [], closed_fds = [], waiting_socket_threads = []\<rparr>"

text \<open>
  A socket on which \<^verbatim>\<open>Connect\<close> has just been called, with its worker, and an address
  whose connection attempt is refused.
\<close>

definition connecting_worker :: CSocketThread where
  "connecting_worker =
     \<lparr>m_pSocket = 1, m_pHost = Some ''localhost'',
      m_pPort = Some (''21'' @ replicate 4 (CHR 0x00)), m_started = True, m_quit = False,
      m_finished = False, m_waiting = 0, m_triggered = 0,
      m_triggered_errors = [0, 0, 0, 0, 0], m_threadwait = False,
      m_condition_signals = 0, m_wakeups = 0\<rparr>"

definition connecting_socket :: CSocket where
  "connecting_socket =
     \<lparr>this = 1, m_pEvtHandler = 7, m_fd = - 1, m_state = connecting,
      m_pSocketThread = Some connecting_worker,
      m_host = ''localhost'', m_port = 21, m_family = AF_UNSPEC,
      dispatcher = [], closed_fds = [], waiting_socket_threads = []\<rparr>"

definition loopback :: addrinfo where
  "loopback = \<lparr>ai_family = AF_INET, ni_res = 0, ni_host = ''127.0.0.1'', ni_port = ''21''\<rparr>"

definition refused :: attempt_sys where
  "refused =
     \<lparr>socket_res = 5, socket_error = 0, connect_ret = - 1, connect_error = EINPROGRESS,
      wait = connect_triggered ECONNREFUSED\<rparr>"

definition unreachable :: attempt_sys where
  "unreachable =
     \<lparr>socket_res = 5, socket_error = 0, connect_ret = - 1, connect_error = ENETUNREACH,
      wait = wait_failed\<rparr>"

section \<open>Properties of the dispatcher\<close>

lemma RemovePending_loop_inv:
  "remaining \<le> iter \<Longrightarrow> iter \<le> length q \<Longrightarrow>
   RemovePending_loop keep q remaining iter = (q', r') \<Longrightarrow>
   take r' q' = take remaining q @ filter keep (drop iter q)"
proof (induction keep q remaining iter arbitrary: q' r' rule: RemovePending_loop.induct)
  case (1 keep q remaining iter)
  show ?case
  proof (cases "iter < length q")
    case False
    then have "RemovePending_loop keep q remaining iter = (q, remaining)"
      by (subst RemovePending_loop.simps) simp
    with "1.prems" False show ?thesis
      by simp
  next
    case inside: True
    have split: "drop iter q = q ! iter # drop (Suc iter) q"
      using inside by (simp add: Cons_nth_drop_Suc)
    show ?thesis
    proof (cases "keep (q ! iter)")
      case True
      let ?q1 = "q[remaining := q ! iter]"
      from "1.prems" inside True
      have run: "RemovePending_loop keep ?q1 (Suc remaining) (Suc iter) = (q', r')"
        by (simp add: RemovePending_loop.simps [of keep q remaining iter])
      have rem: "remaining < length q"
        using "1.prems"(1) inside by simp
      have "take r' q' = take (Suc remaining) ?q1 @ filter keep (drop (Suc iter) ?q1)"
        using "1.IH"(1) [OF inside True _ _ run] "1.prems"(1) inside by simp
      moreover have "take (Suc remaining) ?q1 = take remaining q @ [q ! iter]"
        using rem by (simp add: take_Suc_conv_app_nth)
      moreover have "drop (Suc iter) ?q1 = drop (Suc iter) q"
        using "1.prems"(1) by simp
      ultimately show ?thesis
        using True split by simp
    next
      case False
      from "1.prems" inside False
      have run: "RemovePending_loop keep q remaining (Suc iter) = (q', r')"
        by (simp add: RemovePending_loop.simps [of keep q remaining iter])
      have "take r' q' = take remaining q @ filter keep (drop (Suc iter) q)"
        using "1.IH"(2) [OF inside False _ _ run] "1.prems"(1) inside by simp
      then show ?thesis
        using False split by simp
    qed
  qed
qed

lemma RemovePending_loop_filter:
  "(case RemovePending_loop keep q 0 0 of (q', r') \<Rightarrow> take r' q') = filter keep q"
proof (cases "RemovePending_loop keep q 0 0")
  case (Pair q' r')
  from RemovePending_loop_inv [OF _ _ Pair] show ?thesis
    using Pair by simp
qed

text \<open>
  Claim C9. \<^verbatim>\<open>RemovePending(handler)\<close> leaves in the queue exactly the events whose
  handler differs from the given one, and \<^verbatim>\<open>RemovePending(source)\<close> exactly those whose
  source differs from the given one; in both cases the events kept stand in their
  original relative order (the result is the queue filtered).
\<close>

theorem RemovePending_removes_exactly_matching:
  "RemovePending_handler pHandler q = filter (\<lambda>e. m_pSocketEventHandler e \<noteq> pHandler) q \<and>
   RemovePending_source pSource q = filter (\<lambda>e. m_pSource e \<noteq> pSource) q"
  by (simp add: RemovePending_handler_def RemovePending_source_def RemovePending_loop_filter)

section \<open>Properties of the error table\<close>

lemma dec_nat_nonempty: "dec_nat n \<noteq> []"
  by (subst dec_nat.simps) simp

lemma Format_d_nonempty: "Format_d n \<noteq> []"
  by (simp add: Format_d_def dec_nat_nonempty)

lemma scan_error_table_find:
  "scan_error_table tab error =
     find (\<lambda>e. code e = error) (takeWhile (\<lambda>e. code e \<noteq> 0) tab)"
  by (induction tab) auto

lemma find_distinct_code:
  "e \<in> set es \<Longrightarrow> distinct (map code es) \<Longrightarrow> find (\<lambda>x. code x = code e) es = Some e"
proof (induction es)
  case Nil
  then show ?case by simp
next
  case (Cons x xs)
  show ?case
  proof (cases "e = x")
    case True
    then show ?thesis by simp
  next
    case False
    with Cons.prems have mem: "e \<in> set xs" and fresh: "code x \<notin> code ` set xs"
      and dist: "distinct (map code xs)"
      by auto
    from mem fresh have "code x \<noteq> code e" by (metis imageI)
    with Cons.IH [OF mem dist] show ?thesis by simp
  qed
qed

lemma find_absent_code: "c \<notin> code ` set es \<Longrightarrow> find (\<lambda>x. code x = c) es = None"
  by (induction es) auto

text \<open>
  Claim C7, amended. On every platform \<^verbatim>\<open>GetErrorString\<close> and \<^verbatim>\<open>GetErrorDescription\<close>
  are total functions of the error code. For a code present in the error table,
  \<^verbatim>\<open>GetErrorString\<close> returns the symbolic name of the first entry of the table with that
  code, and \<^verbatim>\<open>GetErrorDescription\<close> that name, then \<open>" - "\<close>, then the translated
  description of that entry; where the codes of the table are pairwise distinct this is,
  for each entry, the name and the description of the entry itself. For a code that is
  not in the table both return the decimal rendering of the code. Hence
  \<^verbatim>\<open>GetErrorDescription\<close> returns a non-empty string for every code.
\<close>

theorem GetError_total:
  "GetErrorString wxmsw defined val error =
     (case find (\<lambda>e. code e = error) (error_entries wxmsw defined val) of
        Some e \<Rightarrow> name e
      | None \<Rightarrow> Format_d error) \<and>
   GetErrorDescription wxmsw defined val wxGetTranslation error =
     (case find (\<lambda>e. code e = error) (error_entries wxmsw defined val) of
        Some e \<Rightarrow> name e @ '' - '' @ wxGetTranslation (description e)
      | None \<Rightarrow> Format_d error) \<and>
   (error \<notin> code ` set (error_entries wxmsw defined val) \<longrightarrow>
      GetErrorString wxmsw defined val error = Format_d error \<and>
      GetErrorDescription wxmsw defined val wxGetTranslation error = Format_d error) \<and>
   (distinct (map code (error_entries wxmsw defined val)) \<longrightarrow>
      (\<forall>e \<in> set (error_entries wxmsw defined val).
         GetErrorString wxmsw defined val (code e) = name e \<and>
         GetErrorDescription wxmsw defined val wxGetTranslation (code e) =
           name e @ '' - '' @ wxGetTranslation (description e))) \<and>
   GetErrorDescription wxmsw defined val wxGetTranslation error \<noteq> []"
proof -
  let ?es = "error_entries wxmsw defined val"
  have scan: "scan_error_table (error_table wxmsw defined val) c = find (\<lambda>e. code e = c) ?es"
    for c
    by (simp add: scan_error_table_find error_entries_def)
  have first: "GetErrorString wxmsw defined val c =
       (case find (\<lambda>e. code e = c) ?es of Some e \<Rightarrow> name e | None \<Rightarrow> Format_d c)"
    and first_desc: "GetErrorDescription wxmsw defined val wxGetTranslation c =
       (case find (\<lambda>e. code e = c) ?es of
          Some e \<Rightarrow> name e @ '' - '' @ wxGetTranslation (description e)
        | None \<Rightarrow> Format_d c)" for c
    by (simp_all add: GetErrorString_def GetErrorDescription_def scan)
  have absent: "GetErrorString wxmsw defined val error = Format_d error \<and>
      GetErrorDescription wxmsw defined val wxGetTranslation error = Format_d error"
    if "error \<notin> code ` set ?es"
    using find_absent_code [OF that] by (simp add: first first_desc)
  have own: "GetErrorString wxmsw defined val (code e) = name e \<and>
         GetErrorDescription wxmsw defined val wxGetTranslation (code e) =
           name e @ '' - '' @ wxGetTranslation (description e)"
    if "distinct (map code ?es)" and "e \<in> set ?es" for e
    using find_distinct_code [OF that(2,1)] by (simp add: first first_desc)
  have nonempty: "GetErrorDescription wxmsw defined val wxGetTranslation error \<noteq> []"
    by (simp add: first_desc Format_d_nonempty split: option.split)
  from first [of error] first_desc [of error] absent own nonempty show ?thesis
    by blast
qed

lemma glibc_codes_distinct: "distinct (map code (error_entries False glibc_defined glibc_val))"
  by code_simp

lemma glibc_12345_absent: "12345 \<notin> code ` set (error_entries False glibc_defined glibc_val)"
  by code_simp

lemma glibc_ECONNREFUSED_entry:
  "\<lparr>code = ECONNREFUSED, name = ''ECONNREFUSED'',
    description = ''Connection refused by server''\<rparr>
     \<in> set (error_entries False glibc_defined glibc_val)"
  by code_simp

lemma Format_d_12345: "Format_d 12345 = ''12345''"
  by (simp add: Format_d_def dec_nat.simps digit_char_def)

theorem GetError_total_witness:
  "12345 \<notin> code ` set (error_entries False glibc_defined glibc_val) \<and>
   distinct (map code (error_entries False glibc_defined glibc_val)) \<and>
   \<lparr>code = ECONNREFUSED, name = ''ECONNREFUSED'',
    description = ''Connection refused by server''\<rparr>
     \<in> set (error_entries False glibc_defined glibc_val) \<and>
   GetErrorString False glibc_defined glibc_val ECONNREFUSED = ''ECONNREFUSED'' \<and>
   GetErrorDescription False glibc_defined glibc_val (\<lambda>s. s) ECONNREFUSED =
     ''ECONNREFUSED - Connection refused by server'' \<and>
   GetErrorString False glibc_defined glibc_val 12345 = ''12345'' \<and>
   GetErrorDescription False glibc_defined glibc_val (\<lambda>s. s) 12345 = ''12345''"
proof -
  note total = GetError_total [of False glibc_defined glibc_val _ "\<lambda>s. s"]
  note absent = total [of 12345, THEN conjunct2, THEN conjunct2, THEN conjunct1]
  note own = total [of 0, THEN conjunct2, THEN conjunct2, THEN conjunct2, THEN conjunct1]
  from absent [rule_format, OF glibc_12345_absent]
  have unknown: "GetErrorString False glibc_defined glibc_val 12345 = ''12345'' \<and>
      GetErrorDescription False glibc_defined glibc_val (\<lambda>s. s) 12345 = ''12345''"
    by (simp only: Format_d_12345)
  from own [rule_format, OF glibc_codes_distinct glibc_ECONNREFUSED_entry]
  have known: "GetErrorString False glibc_defined glibc_val ECONNREFUSED = ''ECONNREFUSED'' \<and>
      GetErrorDescription False glibc_defined glibc_val (\<lambda>s. s) ECONNREFUSED =
        ''ECONNREFUSED - Connection refused by server''"
    by simp
  show ?thesis
    by (intro conjI glibc_12345_absent glibc_codes_distinct glibc_ECONNREFUSED_entry
        known [THEN conjunct1] known [THEN conjunct2]
        unknown [THEN conjunct1] unknown [THEN conjunct2])
qed

text \<open>
  Where the source defines \<^verbatim>\<open>EAI_ADDRFAMILY\<close> as \<^verbatim>\<open>EAI_FAMILY\<close>, two entries of the table
  have the same code, whatever the values of the platform are.
\<close>

lemma EAI_ADDRFAMILY_aliased:
  assumes "\<not> defined ''EAI_ADDRFAMILY''" and "defined ''EAI_FAMILY''"
  shows "code (ERRORDECL False defined val ''EAI_ADDRFAMILY'' d1) =
         code (ERRORDECL False defined val ''EAI_FAMILY'' d2)"
  using assms by (simp add: ERRORDECL_def macro_value_def)

text \<open>
  Claim C7, as stated, fails: on FreeBSD the table has an entry with the name
  \<^verbatim>\<open>EAI_FAMILY\<close>, and for the code of that entry \<^verbatim>\<open>GetErrorString\<close> returns the name
  \<^verbatim>\<open>EAI_ADDRFAMILY\<close> of the earlier entry with the same code.
\<close>

theorem GetErrorString_aliased_code:
  "\<lparr>code = 5, name = ''EAI_FAMILY'',
    description = ''The ai_family member is not supported''\<rparr>
     \<in> set (error_entries False freebsd_defined freebsd_val) \<and>
   GetErrorString False freebsd_defined freebsd_val 5 = ''EAI_ADDRFAMILY'' \<and>
   GetErrorString False freebsd_defined freebsd_val 5 \<noteq> ''EAI_FAMILY''"
  by code_simp

section \<open>Properties of address formatting\<close>

lemma Find_lower: "- 1 \<le> Find ch s"
  by (induction s) (auto simp: Let_def)

lemma Find_absent: "Find ch s = - 1 \<longleftrightarrow> ch \<notin> set s"
proof (induction s)
  case Nil then show ?case by simp
next
  case (Cons x xs)
  then show ?case
    using Find_lower [of ch xs] by (auto simp: Let_def)
qed

lemma Find_nonneg: "ch \<in> set s \<Longrightarrow> 0 \<le> Find ch s"
  by (induction s) (auto simp: Let_def)

lemma Find_takeWhile: "ch \<in> set s \<Longrightarrow> take (nat (Find ch s)) s = takeWhile (\<lambda>c. c \<noteq> ch) s"
proof (induction s)
  case Nil then show ?case by simp
next
  case (Cons x xs)
  show ?case
  proof (cases "x = ch")
    case True then show ?thesis by simp
  next
    case False
    with Cons.prems have mem: "ch \<in> set xs" by simp
    then have "Find ch xs \<noteq> - 1" "0 \<le> Find ch xs"
      by (simp_all add: Find_absent Find_nonneg)
    then show ?thesis
      using False Cons.IH [OF mem] by (simp add: Let_def nat_add_distrib)
  qed
qed

lemma strip_zone:
  "(let pos = Find ch host in if pos \<noteq> - 1 then Truncate pos host else host) =
     takeWhile (\<lambda>c. c \<noteq> ch) host"
proof (cases "ch \<in> set host")
  case True
  then show ?thesis
    by (simp add: Let_def Find_absent Truncate_def Find_takeWhile)
next
  case False
  then have whole: "takeWhile (\<lambda>c. c \<noteq> ch) host = host"
    by (induction host) auto
  from False have "Find ch host = - 1"
    by (simp add: Find_absent)
  then show ?thesis
    by (simp add: whole)
qed

text \<open>
  Claim C8. \<^verbatim>\<open>AddressToString\<close> returns the empty string when \<^verbatim>\<open>getnameinfo\<close> fails.
  Otherwise, for an IPv6 address with \<open>strip_zone_index\<close> set, the host loses everything
  from its first \<open>%\<close> on; for an IPv6 address with \<open>with_port\<close> set the host is put in
  brackets; and the result is the host, followed by \<open>:\<close> and the port when \<open>with_port\<close>
  is set.
\<close>

theorem AddressToString_format:
  "AddressToString res hostbuf portbuf sa_family with_port strip_zone_index =
     (if res \<noteq> 0 then []
      else
        let stripped = (if sa_family = AF_INET6 \<and> strip_zone_index
                        then takeWhile (\<lambda>c. c \<noteq> CHR ''%'') hostbuf else hostbuf);
            enclosed = (if sa_family = AF_INET6 \<and> with_port
                        then ''['' @ stripped @ '']'' else stripped)
        in if with_port then enclosed @ '':'' @ portbuf else enclosed)"
  using strip_zone [of "CHR ''%''" hostbuf]
  by (simp add: AddressToString_def Let_def)

theorem AddressToString_format_witness:
  "AddressToString 0 ''fe80::1%eth0'' ''21'' AF_INET6 True True = ''[fe80::1]:21'' \<and>
   AddressToString 0 ''fe80::1%eth0'' ''21'' AF_INET6 False False = ''fe80::1%eth0'' \<and>
   AddressToString 1 ''fe80::1%eth0'' ''21'' AF_INET6 True True = []"
  using AddressToString_format [of 0 "''fe80::1%eth0''" "''21''" AF_INET6 True True]
    AddressToString_format [of 0 "''fe80::1%eth0''" "''21''" AF_INET6 False False]
    AddressToString_format [of 1 "''fe80::1%eth0''" "''21''" AF_INET6 True True]
  by simp

section \<open>Properties of connecting\<close>


lemma dec_nat_length: "n < 10 ^ Suc k \<Longrightarrow> length (dec_nat n) \<le> Suc k"
proof (induction k arbitrary: n)
  case 0
  then show ?case by (subst dec_nat.simps) simp
next
  case (Suc k)
  show ?case
  proof (cases "n < 10")
    case True
    then show ?thesis by (subst dec_nat.simps) simp
  next
    case False
    from Suc.prems have "n div 10 < 10 ^ Suc k" by simp
    from Suc.IH [OF this] False show ?thesis
      by (subst dec_nat.simps) simp
  qed
qed

lemma digit_char_not_zero: "d < 10 \<Longrightarrow> digit_char d \<noteq> CHR 0x00"
proof -
  assume "d < 10"
  then have "d \<in> {0, 1, 2, 3, 4, 5, 6, 7, 8, 9}" by auto
  then show ?thesis by (auto simp: digit_char_def)
qed

lemma dec_nat_no_zero: "CHR 0x00 \<notin> set (dec_nat n)"
proof (induction n rule: dec_nat.induct)
  case (1 n)
  have last_digit: "digit_char (n mod 10) \<noteq> CHR 0x00"
    by (rule digit_char_not_zero) simp
  show ?case
  proof (cases "n < 10")
    case True
    then have "dec_nat n = [digit_char n]"
      by (subst dec_nat.simps) simp
    with True digit_char_not_zero [of n] show ?thesis by auto
  next
    case False
    then have "dec_nat n = dec_nat (n div 10) @ [digit_char (n mod 10)]"
      by (subst dec_nat.simps) simp
    with "1.IH" [OF False] last_digit show ?thesis by auto
  qed
qed

lemma c_str_terminated: "CHR 0x00 \<notin> set xs \<Longrightarrow> c_str (xs @ CHR 0x00 # ys) = xs"
  by (induction xs) (auto simp: c_str_def)

lemma port_digits: "port \<le> 65535 \<Longrightarrow> length (Format_u port) \<le> 5"
  using dec_nat_length [of port 4] by (simp add: Format_u_def)

lemma sprintf_u_port:
  assumes "port \<le> 65535"
  shows "sprintf_u (replicate 6 (CHR 0x00)) port =
           Inr (Format_u port @ replicate (6 - length (Format_u port)) (CHR 0x00))"
proof -
  from assms have len: "length (Format_u port) \<le> 5" by (rule port_digits)
  then have "replicate (6 - length (Format_u port)) (CHR 0x00) =
             CHR 0x00 # replicate (5 - length (Format_u port)) (CHR 0x00)"
    by (simp add: Suc_diff_le flip: replicate_Suc)
  with len show ?thesis
    by (simp add: sprintf_u_def Let_def)
qed

lemma CSocketThread_Connect_no_fault:
  assumes "port \<le> 65535"
  shows "CSocketThread_Connect sys host_mb port t \<noteq> Inl buffer_overflow"
  using sprintf_u_port [OF assms] port_digits [OF assms]
  by (simp add: CSocketThread_Connect_def store_char_def split: option.split)

lemma Connect_tail_no_fault:
  "x \<noteq> Inl buffer_overflow \<Longrightarrow>
   (case x of Inl f \<Rightarrow> Inl f | Inr (res, t) \<Rightarrow> if res \<noteq> (0::int) then Inr (g res t) else Inr (h res t))
     \<noteq> Inl buffer_overflow"
  by (cases x) (auto split: prod.split)

lemma Connect_no_fault:
  "Connect tw sys host_mb host port family s \<noteq> Inl buffer_overflow"
proof (cases "port \<le> 65535")
  case True
  show ?thesis
    unfolding Connect_def Let_def
    by (simp add: Connect_tail_no_fault CSocketThread_Connect_no_fault [OF True])
next
  case False
  then show ?thesis by (simp add: Connect_def)
qed

text \<open>
  Claim C10. \<^verbatim>\<open>CSocket::Connect\<close> hands a port between 1 and 65535 to
  \<^verbatim>\<open>CSocketThread::Connect\<close>. For such a port the decimal rendering has at most five
  characters, so \<^verbatim>\<open>sprintf\<close> writes them and the terminating zero inside the buffer of
  six characters, the store to \<^verbatim>\<open>m_pPort[5]\<close> is inside it as well, and neither
  \<^verbatim>\<open>CSocketThread::Connect\<close> nor \<^verbatim>\<open>CSocket::Connect\<close> (for any port it is called with)
  ends in a write outside the buffer.
\<close>

theorem port_buffer_in_bounds:
  assumes "1 \<le> port" and "port \<le> 65535"
  shows "length (Format_u port) + 1 \<le> 6 \<and>
         sprintf_u (replicate 6 (CHR 0x00)) port =
           Inr (Format_u port @ replicate (6 - length (Format_u port)) (CHR 0x00)) \<and>
         CSocketThread_Connect sys host_mb port t \<noteq> Inl buffer_overflow \<and>
         Connect tw sys host_mb host any_port family s \<noteq> Inl buffer_overflow"
  using port_digits [OF assms(2)] sprintf_u_port [OF assms(2)]
    CSocketThread_Connect_no_fault [OF assms(2)] Connect_no_fault
  by simp

lemma Format_u_65535: "Format_u 65535 = ''65535''"
  by (simp add: Format_u_def dec_nat.simps digit_char_def)

theorem port_buffer_in_bounds_witness:
  "(1::nat) \<le> 65535 \<and> (65535::nat) \<le> 65535 \<and>
   sprintf_u (replicate 6 (CHR 0x00)) 65535 = Inr (''65535'' @ [CHR 0x00])"
  using port_buffer_in_bounds [of 65535] Format_u_65535
  by simp

text \<open>A port of six digits would not fit.\<close>

lemma sprintf_u_overflow: "sprintf_u (replicate 6 (CHR 0x00)) 100000 = Inl buffer_overflow"
  by (simp add: sprintf_u_def Format_u_def dec_nat.simps digit_char_def)

lemma CSocketThread_Connect_staged:
  assumes "port \<le> 65535"
  shows "CSocketThread_Connect sys (Some buf) port t =
           Inr (0, snd (Start sys (t\<lparr>m_pHost := Some buf,
                  m_pPort := Some ((Format_u port @
                     replicate (6 - length (Format_u port)) (CHR 0x00))[5 := CHR 0x00])\<rparr>)))"
  using sprintf_u_port [OF assms] port_digits [OF assms]
  by (simp add: CSocketThread_Connect_def store_char_def)

lemma Connect_started:
  assumes "m_state s = none" and "1 \<le> port" and "port \<le> 65535"
    and "family = unspec \<or> family = ipv4 \<or> family = ipv6"
  shows "(case Connect tw sys (Some buf) host port family s of
            Inl f \<Rightarrow> None
          | Inr (res, s') \<Rightarrow> Some (res, m_state s')) = Some (EINPROGRESS, connecting)"
  using assms(4)
proof (elim disjE)
  assume "family = unspec"
  with assms(1-3) show ?thesis
    by (simp add: Connect_def Let_def CSocketThread_Connect_staged)
next
  assume "family = ipv4"
  with assms(1-3) show ?thesis
    by (simp add: Connect_def Let_def CSocketThread_Connect_staged)
next
  assume "family = ipv6"
  with assms(1-3) show ?thesis
    by (simp add: Connect_def Let_def CSocketThread_Connect_staged)
qed

text \<open>
  Claim C5. \<^verbatim>\<open>Connect\<close> returns \<^verbatim>\<open>EISCONN\<close> whenever the state of the socket is not
  \<open>none\<close>. From state \<open>none\<close> it returns \<^verbatim>\<open>EINVAL\<close> whenever the port is outside 1..65535
  or the family is none of \<open>unspec\<close>, \<open>ipv4\<close>, \<open>ipv6\<close>. Otherwise, when the host name
  could be staged for the worker, it returns \<^verbatim>\<open>EINPROGRESS\<close> and leaves the socket in
  state \<open>connecting\<close>.
\<close>

theorem Connect_result:
  "(m_state s \<noteq> none \<longrightarrow>
      Connect tw sys host_mb host port family s = Inr (EISCONN, s)) \<and>
   (m_state s = none \<and>
    (port < 1 \<or> 65535 < port \<or> (family \<noteq> unspec \<and> family \<noteq> ipv4 \<and> family \<noteq> ipv6)) \<longrightarrow>
      Connect tw sys host_mb host port family s = Inr (EINVAL, s)) \<and>
   (m_state s = none \<and> 1 \<le> port \<and> port \<le> 65535 \<and>
    (family = unspec \<or> family = ipv4 \<or> family = ipv6) \<and> host_mb \<noteq> None \<longrightarrow>
      (case Connect tw sys host_mb host port family s of
         Inl f \<Rightarrow> None
       | Inr (res, s') \<Rightarrow> Some (res, m_state s')) = Some (EINPROGRESS, connecting))"
proof (intro conjI impI)
  assume "m_state s \<noteq> none"
  then show "Connect tw sys host_mb host port family s = Inr (EISCONN, s)"
    by (simp add: Connect_def)
next
  assume "m_state s = none \<and>
    (port < 1 \<or> 65535 < port \<or> (family \<noteq> unspec \<and> family \<noteq> ipv4 \<and> family \<noteq> ipv6))"
  then show "Connect tw sys host_mb host port family s = Inr (EINVAL, s)"
    by (auto simp add: Connect_def)
next
  assume a: "m_state s = none \<and> 1 \<le> port \<and> port \<le> 65535 \<and>
    (family = unspec \<or> family = ipv4 \<or> family = ipv6) \<and> host_mb \<noteq> None"
  then obtain buf where buf: "host_mb = Some buf" by auto
  from a show "(case Connect tw sys host_mb host port family s of
         Inl f \<Rightarrow> None
       | Inr (res, s') \<Rightarrow> Some (res, m_state s')) = Some (EINPROGRESS, connecting)"
    unfolding buf by (intro Connect_started) simp_all
qed

theorem Connect_result_witness:
  "Connect False \<lparr>primitive_res = 0, create_ok = True\<rparr> (Some ''::1'') ''::1'' 65536 ipv6
     fresh_socket = Inr (EINVAL, fresh_socket) \<and>
   Connect False \<lparr>primitive_res = 0, create_ok = True\<rparr> (Some ''127.0.0.1'') ''127.0.0.1'' 0 unspec
     fresh_socket = Inr (EINVAL, fresh_socket) \<and>
   Connect False \<lparr>primitive_res = 0, create_ok = True\<rparr> (Some ''127.0.0.1'') ''127.0.0.1'' 21 ipv4
     (fresh_socket\<lparr>m_state := connected\<rparr>) = Inr (EISCONN, fresh_socket\<lparr>m_state := connected\<rparr>) \<and>
   (case Connect False \<lparr>primitive_res = 0, create_ok = True\<rparr> (Some ''127.0.0.1'') ''127.0.0.1'' 21
           ipv4 fresh_socket of
      Inl f \<Rightarrow> None
    | Inr (res, s') \<Rightarrow> Some (res, m_state s')) = Some (EINPROGRESS, connecting)"
  using Connect_result [of fresh_socket False "\<lparr>primitive_res = 0, create_ok = True\<rparr>"
      "Some ''::1''" "''::1''" 65536 ipv6]
    Connect_result [of fresh_socket False "\<lparr>primitive_res = 0, create_ok = True\<rparr>"
      "Some ''127.0.0.1''" "''127.0.0.1''" 0 unspec]
    Connect_result [of "fresh_socket\<lparr>m_state := connected\<rparr>" False
      "\<lparr>primitive_res = 0, create_ok = True\<rparr>" "Some ''127.0.0.1''" "''127.0.0.1''" 21 ipv4]
    Connect_result [of fresh_socket False "\<lparr>primitive_res = 0, create_ok = True\<rparr>"
      "Some ''127.0.0.1''" "''127.0.0.1''" 21 ipv4]
  by (simp add: fresh_socket_def)

section \<open>Properties of closing\<close>

lemma RemovePending_handler_filter:
  "RemovePending_handler pHandler q = filter (\<lambda>e. m_pSocketEventHandler e \<noteq> pHandler) q"
  by (simp add: RemovePending_handler_def RemovePending_loop_filter)

lemma Close_fields:
  "fst (Close s) = 0 \<and>
   m_state (snd (Close s)) = none \<and>
   m_fd (snd (Close s)) = - 1 \<and>
   m_pEvtHandler (snd (Close s)) = m_pEvtHandler s \<and>
   closed_fds (snd (Close s)) = (if m_fd s \<noteq> - 1 then m_fd s # closed_fds s else closed_fds s) \<and>
   dispatcher (snd (Close s)) =
     (if m_pEvtHandler s \<noteq> 0
      then filter (\<lambda>e. m_pSocketEventHandler e \<noteq> m_pEvtHandler s) (dispatcher s)
      else dispatcher s)"
  by (cases "m_pSocketThread s") (simp_all add: Close_def Let_def RemovePending_handler_filter)



lemma Close_eq:
  "Close s =
     (0, s\<lparr>m_fd := - 1,
           m_state := none,
           m_pSocketThread := map_option Close_worker (m_pSocketThread s),
           closed_fds := (if m_fd s \<noteq> - 1 then m_fd s # closed_fds s else closed_fds s),
           dispatcher :=
             (if m_pEvtHandler s \<noteq> 0
              then filter (\<lambda>e. m_pSocketEventHandler e \<noteq> m_pEvtHandler s) (dispatcher s)
              else dispatcher s)\<rparr>)"
  by (cases "m_pSocketThread s")
     (simp_all add: Close_def Let_def RemovePending_handler_filter Close_worker_def)


lemma Close_worker_again:
  "Close_worker (Close_worker t) =
     (Close_worker t)\<lparr>m_wakeups := m_wakeups (Close_worker t) +
        (if m_started (Close_worker t) \<and> \<not> m_finished (Close_worker t) \<and>
            \<not> m_threadwait (Close_worker t) then 1 else 0)\<rparr>"
  by (simp add: Close_worker_def WakeupThread_def)

lemma Close_worker_cleared:
  "m_triggered (Close_worker t) = 0 \<and>
   m_triggered_errors (Close_worker t) = replicate WAIT_EVENTCOUNT 0 \<and>
   m_pHost (Close_worker t) = None \<and> m_pPort (Close_worker t) = None"
  by (simp add: Close_worker_def WakeupThread_def)

lemma Close_again:
  "snd (Close (snd (Close s))) =
     (snd (Close s))\<lparr>m_pSocketThread :=
        map_option (\<lambda>t. t\<lparr>m_wakeups := m_wakeups t +
                            (if m_started t \<and> \<not> m_finished t \<and> \<not> m_threadwait t then 1 else 0)\<rparr>)
          (m_pSocketThread (snd (Close s)))\<rparr>"
proof -
  define s1 where "s1 = snd (Close s)"
  have fd: "m_fd s1 = - 1" and st: "m_state s1 = none"
    and h: "m_pEvtHandler s1 = m_pEvtHandler s"
    and q: "dispatcher s1 =
     (if m_pEvtHandler s \<noteq> 0
      then filter (\<lambda>e. m_pSocketEventHandler e \<noteq> m_pEvtHandler s) (dispatcher s)
      else dispatcher s)"
    and th: "m_pSocketThread s1 = map_option Close_worker (m_pSocketThread s)"
    by (simp_all add: s1_def Close_eq)
  have q': "(if m_pEvtHandler s1 \<noteq> 0
      then filter (\<lambda>e. m_pSocketEventHandler e \<noteq> m_pEvtHandler s1) (dispatcher s1)
      else dispatcher s1) = dispatcher s1"
    by (simp add: h q)
  have th': "map_option Close_worker (m_pSocketThread s1) =
      map_option (\<lambda>t. t\<lparr>m_wakeups := m_wakeups t +
                            (if m_started t \<and> \<not> m_finished t \<and> \<not> m_threadwait t then 1 else 0)\<rparr>)
          (m_pSocketThread s1)"
    unfolding th by (cases "m_pSocketThread s") (simp_all add: Close_worker_again)
  have "snd (Close s1) = s1\<lparr>m_pSocketThread := map_option Close_worker (m_pSocketThread s1)\<rparr>"
    unfolding Close_eq [of s1] snd_conv q' by (simp add: fd st)
  then have "snd (Close s1) = s1\<lparr>m_pSocketThread :=
      map_option (\<lambda>t. t\<lparr>m_wakeups := m_wakeups t +
                            (if m_started t \<and> \<not> m_finished t \<and> \<not> m_threadwait t then 1 else 0)\<rparr>)
          (m_pSocketThread s1)\<rparr>"
    by (simp only: th')
  then show ?thesis
    unfolding s1_def .
qed


text \<open>
  Claim C4. \<^verbatim>\<open>Close\<close> returns \<open>0\<close> from every state and leaves the socket in state
  \<open>none\<close> without a descriptor: the descriptor it held, if any, has been closed; the
  triggered bits, their error codes and the staged host and port of the worker, if there
  is one, are cleared; and the pending events of the current handler are removed from the
  dispatcher. A second \<^verbatim>\<open>Close\<close> returns \<open>0\<close> again and changes no field of the socket
  or of the worker; its only effect is that a running worker that is not in its idle wait
  has its wakeup primitive posted once more.
\<close>

theorem Close_idempotent:
  "fst (Close s) = 0 \<and>
   m_state (snd (Close s)) = none \<and>
   m_fd (snd (Close s)) = - 1 \<and>
   closed_fds (snd (Close s)) = (if m_fd s \<noteq> - 1 then m_fd s # closed_fds s else closed_fds s) \<and>
   (\<forall>t'. m_pSocketThread (snd (Close s)) = Some t' \<longrightarrow>
      m_triggered t' = 0 \<and> m_triggered_errors t' = replicate WAIT_EVENTCOUNT 0 \<and>
      m_pHost t' = None \<and> m_pPort t' = None) \<and>
   dispatcher (snd (Close s)) =
     (if m_pEvtHandler s \<noteq> 0
      then filter (\<lambda>e. m_pSocketEventHandler e \<noteq> m_pEvtHandler s) (dispatcher s)
      else dispatcher s) \<and>
   fst (Close (snd (Close s))) = 0 \<and>
   snd (Close (snd (Close s))) =
     (snd (Close s))\<lparr>m_pSocketThread :=
        map_option (\<lambda>t. t\<lparr>m_wakeups := m_wakeups t +
                            (if m_started t \<and> \<not> m_finished t \<and> \<not> m_threadwait t then 1 else 0)\<rparr>)
          (m_pSocketThread (snd (Close s)))\<rparr>"
proof -
  have cleared: "\<forall>t'. m_pSocketThread (snd (Close s)) = Some t' \<longrightarrow>
      m_triggered t' = 0 \<and> m_triggered_errors t' = replicate WAIT_EVENTCOUNT 0 \<and>
      m_pHost t' = None \<and> m_pPort t' = None"
    using Close_worker_cleared by (auto simp: Close_eq)
  have "fst (Close (snd (Close s))) = 0"
    by (simp add: Close_eq)
  with cleared Close_fields [of s] Close_again [of s] show ?thesis
    by blast
qed

theorem Close_idempotent_witness:
  "m_pSocketThread (snd (Close busy_socket)) =
     Some closed_worker \<and>
   m_triggered closed_worker = 0 \<and> m_pHost closed_worker = None \<and>
   m_state (snd (Close busy_socket)) = none \<and>
   closed_fds (snd (Close busy_socket)) = [5] \<and>
   dispatcher (snd (Close busy_socket)) = [CSocketEvent_error 8 1 read 0] \<and>
   snd (Close (snd (Close busy_socket))) =
     (snd (Close busy_socket))\<lparr>m_pSocketThread := Some (closed_worker\<lparr>m_wakeups := 2\<rparr>)\<rparr>"
proof -
  have worker: "m_pSocketThread (snd (Close busy_socket)) = Some closed_worker"
    by (simp add: Close_eq Close_worker_def WakeupThread_def busy_socket_def busy_worker_def
        closed_worker_def WAIT_EVENTCOUNT_def numeral_eq_Suc)
  have socket: "m_fd busy_socket = 5" "closed_fds busy_socket = []"
    "m_pEvtHandler busy_socket = 7"
    "filter (\<lambda>e. m_pSocketEventHandler e \<noteq> 7) (dispatcher busy_socket) =
       [CSocketEvent_error 8 1 read 0]"
    by (simp_all add: busy_socket_def CSocketEvent_error_def)
  have running: "m_started closed_worker" "\<not> m_finished closed_worker"
    "\<not> m_threadwait closed_worker" "m_wakeups closed_worker = 1"
    "m_triggered closed_worker = 0" "m_pHost closed_worker = None"
    by (simp_all add: closed_worker_def busy_worker_def)
  from Close_idempotent [of busy_socket] worker socket running show ?thesis
    by simp
qed

section \<open>Properties of reading and writing\<close>

lemma mask_armed: "((w::int) OR m) AND m = m"
  by (metis bit.disj_conj_distrib2 and_int_code(2) or_int_code(1))

lemma Read_result:
  "fst (Read msw res e s) = res \<and>
   fst (snd (Read msw res e s)) = (if res = - 1 then last_error msw e else 0) \<and>
   (res \<noteq> - 1 \<or> last_error msw e \<noteq> EAGAIN \<longrightarrow> snd (snd (Read msw res e s)) = s)"
  by (simp add: Read_def Let_def)

lemma mask_nonzero: "m \<noteq> 0 \<Longrightarrow> ((w::int) OR m) AND m \<noteq> 0"
  by (simp add: mask_armed)

lemma Read_arms:
  assumes "res = - 1" and "last_error msw e = EAGAIN" and "m_pSocketThread s = Some t"
  shows "\<exists>t'. m_pSocketThread (snd (snd (Read msw res e s))) = Some t' \<and>
              m_waiting t' AND WAIT_READ \<noteq> 0"
proof (cases "m_waiting t AND WAIT_READ = 0")
  case True
  have "WAIT_READ \<noteq> 0" by (simp add: WAIT_READ_def)
  from mask_nonzero [OF this] True assms show ?thesis
    by (simp add: Read_def Let_def WakeupThread_def)
next
  case False
  with assms show ?thesis
    by (simp add: Read_def Let_def)
qed

lemma Write_arms:
  assumes "res = - 1" and "last_error msw e = EAGAIN" and "m_pSocketThread s = Some t"
  shows "\<exists>t'. m_pSocketThread (snd (snd (Write msw res e s))) = Some t' \<and>
              m_waiting t' AND WAIT_WRITE \<noteq> 0"
proof (cases "m_waiting t AND WAIT_WRITE = 0")
  case True
  have "WAIT_WRITE \<noteq> 0" by (simp add: WAIT_WRITE_def)
  from mask_nonzero [OF this] True assms show ?thesis
    by (simp add: Write_def Let_def WakeupThread_def)
next
  case False
  with assms show ?thesis
    by (simp add: Write_def Let_def)
qed

lemma Write_result:
  "fst (Write msw res e s) = res \<and>
   fst (snd (Write msw res e s)) = (if res = - 1 then last_error msw e else 0) \<and>
   (res \<noteq> - 1 \<or> last_error msw e \<noteq> EAGAIN \<longrightarrow> snd (snd (Write msw res e s)) = s)"
  by (simp add: Write_def Let_def)

lemma Peek_result:
  "Peek msw res e s = (res, if res = - 1 then last_error msw e else 0, s)"
  by (simp add: Peek_def)

text \<open>
  Claim C2. \<^verbatim>\<open>Read\<close>, \<^verbatim>\<open>Peek\<close> and \<^verbatim>\<open>Write\<close> return the value of the system call,
  with \<open>error\<close> set to \<open>0\<close> on success and to the normalized error code on failure
  (\<open>Read_result\<close>, \<open>Peek_result\<close>, \<open>Write_result\<close>), and \<^verbatim>\<open>Read\<close> and \<^verbatim>\<open>Write\<close> arm the
  bit of the worker on \<^verbatim>\<open>EAGAIN\<close> (\<open>Read_arms\<close>, \<open>Write_arms\<close>). \<^verbatim>\<open>Peek\<close> does not: on the
  connected socket whose worker waits for nothing, a \<^verbatim>\<open>Peek\<close> that fails with
  \<^verbatim>\<open>EAGAIN\<close> returns \<open>-1\<close> and \<^verbatim>\<open>EAGAIN\<close> and leaves the socket and its worker as they
  were, the read bit not armed and the worker not woken, where \<^verbatim>\<open>Read\<close> with the same
  answer of the system arms the read bit and wakes the worker.
\<close>

theorem Peek_EAGAIN_leaves_read_unarmed:
  "Peek False (- 1) EAGAIN connected_socket = (- 1, EAGAIN, connected_socket) \<and>
   m_pSocketThread connected_socket = Some connected_worker \<and>
   m_waiting connected_worker AND WAIT_READ = 0 \<and>
   m_wakeups connected_worker = 0 \<and>
   Read False (- 1) EAGAIN connected_socket =
     (- 1, EAGAIN,
      connected_socket\<lparr>m_pSocketThread :=
        Some (connected_worker\<lparr>m_waiting := WAIT_READ, m_wakeups := 1\<rparr>)\<rparr>)"
  by (simp add: Peek_def Read_def last_error_def connected_socket_def connected_worker_def
      WakeupThread_def)

section \<open>Properties of the events of the worker\<close>

text \<open>
  Claim C6, as stated, fails: on Windows, with the close triggered without an error and
  a byte left to read, the worker that is not waiting for the read bit sends no event at
  all, neither the read event the claim promises nor the close event.
\<close>

theorem SendCloseEvent_data_left_read_unarmed:
  "m_triggered_errors closing_worker ! 4 = 0 \<and>
   m_triggered closing_worker AND WAIT_CLOSE \<noteq> 0 \<and>
   SendCloseEvent True 1 closing_worker closing_socket = (True, closing_worker, closing_socket) \<and>
   dispatcher (snd (snd (SendCloseEvent True 1 closing_worker closing_socket))) \<noteq>
     dispatcher closing_socket @ [CSocketEvent_error 7 1 read 0]"
  by (simp add: SendCloseEvent_def closing_worker_def closing_socket_def wait_defs)

text \<open>
  Claim C6, amended. On Windows, for a worker with its socket attached and an event
  handler set: when the close was triggered without an error the worker peeks one byte
  first. If data remains, it sends a read event with error \<open>0\<close> in place of the close
  event when the read bit is in its waiting mask, and sends nothing and leaves the close
  bit triggered when it is not. Only when no data remains, or when the close carried an
  error (then without a peek), does it send the close event with that error code and
  clear the close bit.
\<close>

theorem SendCloseEvent_msw:
  assumes "m_pSocket t \<noteq> 0" and "m_pEvtHandler s \<noteq> 0"
  shows "SendCloseEvent True peek_res t s =
     (if m_triggered_errors t ! 4 = 0 \<and> 0 < peek_res then
        (if m_waiting t AND WAIT_READ \<noteq> 0 then
           (True, t,
            s\<lparr>dispatcher := dispatcher s @
                 [CSocketEvent_error (m_pEvtHandler s) (m_pSocket t) read 0]\<rparr>)
         else (True, t, s))
      else
        (m_triggered_errors t ! 4 = 0,
         t\<lparr>m_triggered := m_triggered t AND NOT WAIT_CLOSE\<rparr>,
         s\<lparr>dispatcher := dispatcher s @
              [CSocketEvent_error (m_pEvtHandler s) (m_pSocket t) close
                 (m_triggered_errors t ! 4)]\<rparr>))"
  using assms by (simp add: SendCloseEvent_def SendEvent_def)

theorem SendCloseEvent_msw_witness:
  "m_pSocket closing_worker \<noteq> 0 \<and> m_pEvtHandler closing_socket \<noteq> 0 \<and>
   dispatcher (snd (snd (SendCloseEvent True 1 (closing_worker\<lparr>m_waiting := WAIT_READ\<rparr>)
                           closing_socket))) = [CSocketEvent_error 7 1 read 0] \<and>
   dispatcher (snd (snd (SendCloseEvent True 0 closing_worker closing_socket))) =
     [CSocketEvent_error 7 1 close 0] \<and>
   SendCloseEvent True 1 (closing_worker\<lparr>m_triggered_errors := [0, 0, 0, 0, 104]\<rparr>)
       closing_socket =
     (False,
      closing_worker\<lparr>m_triggered_errors := [0, 0, 0, 0, 104], m_triggered := 0\<rparr>,
      closing_socket\<lparr>dispatcher := [CSocketEvent_error 7 1 close 104]\<rparr>)"
proof -
  have attached: "m_pSocket closing_worker \<noteq> 0" "m_pEvtHandler closing_socket \<noteq> 0"
    "m_pSocket closing_worker = 1" "m_pEvtHandler closing_socket = 7"
    "dispatcher closing_socket = []" "m_triggered_errors closing_worker ! 4 = 0"
    "m_triggered closing_worker AND NOT WAIT_CLOSE = 0"
    "m_waiting closing_worker AND WAIT_READ = 0"
    by (simp_all add: closing_worker_def closing_socket_def wait_defs)
  from SendCloseEvent_msw [of "closing_worker\<lparr>m_waiting := WAIT_READ\<rparr>" closing_socket 1]
    SendCloseEvent_msw [of closing_worker closing_socket 0]
    SendCloseEvent_msw [of "closing_worker\<lparr>m_triggered_errors := [0, 0, 0, 0, 104]\<rparr>"
      closing_socket 1]
    attached
  show ?thesis
    by (simp add: WAIT_READ_def)
qed


lemma send_triggered_queue:
  assumes "send_triggered wait_bit ty i (t, s) = (t', s')"
  shows "m_pEvtHandler s' = m_pEvtHandler s \<and> m_pSocket t' = m_pSocket t \<and>
         (\<exists>extra. dispatcher s' = dispatcher s @ extra \<and>
            (\<forall>e\<in>set extra. m_pSocketEventHandler e = m_pEvtHandler s))"
  using assms
  by (auto simp: send_triggered_def SendEvent_def CSocketEvent_error_def split: if_splits)

lemma SendCloseEvent_queue:
  assumes "SendCloseEvent msw p t s = (b, t', s')"
  shows "m_pEvtHandler s' = m_pEvtHandler s \<and>
         (\<exists>extra. dispatcher s' = dispatcher s @ extra \<and>
            (\<forall>e\<in>set extra. m_pSocketEventHandler e = m_pEvtHandler s))"
  using assms
  by (auto simp: SendCloseEvent_def SendEvent_def CSocketEvent_error_def split: if_splits)

lemma SendEvents_queue:
  assumes "SendEvents msw p t s = (t', s')"
  shows "m_pEvtHandler s' = m_pEvtHandler s \<and>
         (\<exists>extra. dispatcher s' = dispatcher s @ extra \<and>
            (\<forall>e\<in>set extra. m_pSocketEventHandler e = m_pEvtHandler s))"
proof (cases "m_pSocket t = 0 \<or> m_pEvtHandler s = 0")
  case True
  with assms show ?thesis by (simp add: SendEvents_def)
next
  case False
  obtain t1 s1 where r: "send_triggered WAIT_READ read 1 (t, s) = (t1, s1)"
    by (cases "send_triggered WAIT_READ read 1 (t, s)")
  obtain t2 s2 where w: "send_triggered WAIT_WRITE write 2 (t1, s1) = (t2, s2)"
    by (cases "send_triggered WAIT_WRITE write 2 (t1, s1)")
  obtain t3 s3 where a: "send_triggered WAIT_ACCEPT connection 3 (t2, s2) = (t3, s3)"
    by (cases "send_triggered WAIT_ACCEPT connection 3 (t2, s2)")
  from send_triggered_queue [OF r] obtain x1 where
    1: "m_pEvtHandler s1 = m_pEvtHandler s" "dispatcher s1 = dispatcher s @ x1"
       "\<forall>e\<in>set x1. m_pSocketEventHandler e = m_pEvtHandler s"
    by blast
  from send_triggered_queue [OF w] obtain x2 where
    2: "m_pEvtHandler s2 = m_pEvtHandler s1" "dispatcher s2 = dispatcher s1 @ x2"
       "\<forall>e\<in>set x2. m_pSocketEventHandler e = m_pEvtHandler s1"
    by blast
  from send_triggered_queue [OF a] obtain x3 where
    3: "m_pEvtHandler s3 = m_pEvtHandler s2" "dispatcher s3 = dispatcher s2 @ x3"
       "\<forall>e\<in>set x3. m_pSocketEventHandler e = m_pEvtHandler s2"
    by blast
  have upto3: "m_pEvtHandler s3 = m_pEvtHandler s"
    "dispatcher s3 = dispatcher s @ (x1 @ x2 @ x3)"
    "\<forall>e\<in>set (x1 @ x2 @ x3). m_pSocketEventHandler e = m_pEvtHandler s"
    using 1 2 3 by auto
  show ?thesis
  proof (cases "m_triggered t3 AND WAIT_CLOSE \<noteq> 0")
    case False
    with assms \<open>\<not> (m_pSocket t = 0 \<or> m_pEvtHandler s = 0)\<close> r w a
    have "s' = s3" by (simp add: SendEvents_def)
    with upto3 show ?thesis by blast
  next
    case True
    with assms \<open>\<not> (m_pSocket t = 0 \<or> m_pEvtHandler s = 0)\<close> r w a
    have "snd (SendCloseEvent msw p t3 s3) = (t', s')" by (simp add: SendEvents_def)
    then have "SendCloseEvent msw p t3 s3 = (fst (SendCloseEvent msw p t3 s3), t', s')"
      by (metis prod.collapse)
    from SendCloseEvent_queue [OF this] obtain x4 where
      4: "m_pEvtHandler s' = m_pEvtHandler s3" "dispatcher s' = dispatcher s3 @ x4"
         "\<forall>e\<in>set x4. m_pSocketEventHandler e = m_pEvtHandler s3"
      by blast
    have "dispatcher s' = dispatcher s @ ((x1 @ x2 @ x3) @ x4)"
      "\<forall>e\<in>set ((x1 @ x2 @ x3) @ x4). m_pSocketEventHandler e = m_pEvtHandler s"
      using upto3 4 by auto
    with 4(1) upto3(1) show ?thesis by metis
  qed
qed


section \<open>Properties of changing the event handler\<close>

lemma UpdatePending_same_source:
  "UpdatePending pOldHandler pSource pNewHandler pSource q =
     map (\<lambda>e. if m_pSource e = pSource \<and> m_pSocketEventHandler e = pOldHandler
               then e\<lparr>m_pSocketEventHandler := pNewHandler\<rparr> else e) q"
  by (auto simp: UpdatePending_def)

lemma SetEventHandler_worker_queue:
  assumes "pEvtHandler \<noteq> 0" and "m_pEvtHandler s = pEvtHandler"
  shows "\<exists>extra. dispatcher (SetEventHandler_worker msw p pEvtHandler t s) = dispatcher s @ extra \<and>
           (\<forall>e\<in>set extra. m_pSocketEventHandler e = pEvtHandler)"
proof -
  consider (connected) "m_state s = connected" | (closing) "m_state s = closing"
    | (other) "m_state s \<noteq> connected" "m_state s \<noteq> closing"
    by blast
  then show ?thesis
  proof cases
    case connected
    show ?thesis
    proof (cases msw)
      case False
      with connected assms(1) show ?thesis
        by (simp add: SetEventHandler_worker_def)
    next
      case True
      show ?thesis
      proof (cases "m_waiting t AND WAIT_WRITE = 0")
        case armed: True
        have "dispatcher (SetEventHandler_worker msw p pEvtHandler t s) =
            dispatcher s @ [CSocketEvent_error pEvtHandler (this s) write 0,
                            CSocketEvent_error pEvtHandler (this s) read 0]"
          using connected assms(1) True armed
          by (simp add: SetEventHandler_worker_def Let_def SendEvent_def)
        then show ?thesis
          by (simp add: CSocketEvent_error_def)
      next
        case waiting: False
        have "dispatcher (SetEventHandler_worker msw p pEvtHandler t s) =
            dispatcher s @ [CSocketEvent_error pEvtHandler (this s) read 0]"
          using connected assms(1) True waiting
          by (simp add: SetEventHandler_worker_def Let_def SendEvent_def)
        then show ?thesis
          by (simp add: CSocketEvent_error_def)
      qed
    qed
  next
    case closing
    obtain t' s' where run: "SendEvents msw p t s = (t', s')"
      by (cases "SendEvents msw p t s")
    from SendEvents_queue [OF run] assms(2) obtain extra where
      "dispatcher s' = dispatcher s @ extra"
      "\<forall>e\<in>set extra. m_pSocketEventHandler e = pEvtHandler"
      by auto
    moreover from closing run assms(1)
    have "SetEventHandler_worker msw p pEvtHandler t s = s'\<lparr>m_pSocketThread := Some t'\<rparr>"
      by (simp add: SetEventHandler_worker_def)
    ultimately show ?thesis
      by auto
  next
    case other
    then show ?thesis by (simp add: SetEventHandler_worker_def)
  qed
qed

lemma SetEventHandler_queue:
  assumes "pEvtHandler \<noteq> 0"
  shows "\<exists>extra. dispatcher (SetEventHandler msw p pEvtHandler s) =
           (if m_pEvtHandler s \<noteq> 0
            then UpdatePending (m_pEvtHandler s) (this s) pEvtHandler (this s) (dispatcher s)
            else dispatcher s) @ extra \<and>
           (\<forall>e\<in>set extra. m_pSocketEventHandler e = pEvtHandler)"
proof -
  define q1 where "q1 =
     (if m_pEvtHandler s \<noteq> 0
      then UpdatePending (m_pEvtHandler s) (this s) pEvtHandler (this s) (dispatcher s)
      else dispatcher s)"
  define s2 where "s2 =
     (if m_pEvtHandler s \<noteq> 0
      then s\<lparr>dispatcher :=
               UpdatePending (m_pEvtHandler s) (this s) pEvtHandler (this s) (dispatcher s)\<rparr>
      else s)\<lparr>m_pEvtHandler := pEvtHandler\<rparr>"
  have s2: "dispatcher s2 = q1" "m_pEvtHandler s2 = pEvtHandler"
    by (simp_all add: s2_def q1_def)
  have unfold: "SetEventHandler msw p pEvtHandler s =
      (case m_pSocketThread s2 of
         None \<Rightarrow> s2
       | Some t \<Rightarrow> SetEventHandler_worker msw p pEvtHandler t s2)"
    using assms unfolding SetEventHandler_def s2_def Let_def by simp
  have "\<exists>extra. dispatcher (SetEventHandler msw p pEvtHandler s) = q1 @ extra \<and>
           (\<forall>e\<in>set extra. m_pSocketEventHandler e = pEvtHandler)"
  proof (cases "m_pSocketThread s2")
    case None
    with unfold s2 show ?thesis by simp
  next
    case (Some t)
    with unfold SetEventHandler_worker_queue [OF assms s2(2), of msw p t] s2(1)
    show ?thesis by simp
  qed
  then show ?thesis
    unfolding q1_def .
qed

text \<open>
  Claim C3. When \<^verbatim>\<open>SetEventHandler\<close> is called with a handler that is not null, then
  afterwards every event that was queued with this socket as its source and the previous
  handler as its handler stands at its place in the queue with the new handler instead,
  every other event that was queued is unchanged, and the events the call itself has
  appended are for the new handler. Hence, when the new handler differs from the previous
  one, no queued event of this socket refers to the previous handler. For a socket
  without a previous handler this relies on the queue holding no event with a null
  handler, which \<^verbatim>\<open>SendEvent\<close> asserts of every event it is given.
\<close>

theorem SetEventHandler_retargets:
  assumes "pEvtHandler \<noteq> 0"
    and "m_pEvtHandler s \<noteq> 0 \<or> (\<forall>e \<in> set (dispatcher s). m_pSocketEventHandler e \<noteq> 0)"
  shows "take (length (dispatcher s)) (dispatcher (SetEventHandler msw peek_res pEvtHandler s)) =
           map (\<lambda>e. if m_pSource e = this s \<and> m_pSocketEventHandler e = m_pEvtHandler s
                     then e\<lparr>m_pSocketEventHandler := pEvtHandler\<rparr> else e)
               (dispatcher s) \<and>
         (\<forall>e \<in> set (drop (length (dispatcher s))
                        (dispatcher (SetEventHandler msw peek_res pEvtHandler s))).
            m_pSocketEventHandler e = pEvtHandler) \<and>
         (pEvtHandler \<noteq> m_pEvtHandler s \<longrightarrow>
            (\<forall>e \<in> set (dispatcher (SetEventHandler msw peek_res pEvtHandler s)).
               m_pSource e = this s \<longrightarrow> m_pSocketEventHandler e \<noteq> m_pEvtHandler s))"
proof -
  define f :: "CSocketEvent \<Rightarrow> CSocketEvent" where
    "f = (\<lambda>e. if m_pSource e = this s \<and> m_pSocketEventHandler e = m_pEvtHandler s
              then e\<lparr>m_pSocketEventHandler := pEvtHandler\<rparr> else e)"
  define q' where "q' = dispatcher (SetEventHandler msw peek_res pEvtHandler s)"
  have old_part:
    "(if m_pEvtHandler s \<noteq> 0
      then UpdatePending (m_pEvtHandler s) (this s) pEvtHandler (this s) (dispatcher s)
      else dispatcher s) = map f (dispatcher s)"
  proof (cases "m_pEvtHandler s \<noteq> 0")
    case True
    then show ?thesis
      by (simp add: UpdatePending_same_source f_def)
  next
    case False
    with assms(2) have "\<forall>e \<in> set (dispatcher s). f e = e"
      by (auto simp: f_def)
    then have "map f (dispatcher s) = dispatcher s"
      by (simp add: map_idI)
    with False show ?thesis by simp
  qed
  from SetEventHandler_queue [OF assms(1), of msw peek_res s] obtain extra where
    q: "q' = map f (dispatcher s) @ extra"
    and extra: "\<forall>e\<in>set extra. m_pSocketEventHandler e = pEvtHandler"
    unfolding old_part q'_def by blast
  have kept: "take (length (dispatcher s)) q' = map f (dispatcher s)"
    unfolding q by simp
  have new: "\<forall>e \<in> set (drop (length (dispatcher s)) q'). m_pSocketEventHandler e = pEvtHandler"
    unfolding q using extra by simp
  have none_left: "m_pSocketEventHandler e \<noteq> m_pEvtHandler s"
    if differ: "pEvtHandler \<noteq> m_pEvtHandler s" and mem: "e \<in> set q'"
      and src: "m_pSource e = this s" for e
  proof -
    from mem consider (old) e0 where "e0 \<in> set (dispatcher s)" "e = f e0" | (new) "e \<in> set extra"
      unfolding q by auto
    then show ?thesis
    proof cases
      case old
      show ?thesis
      proof (cases "m_pSource e0 = this s \<and> m_pSocketEventHandler e0 = m_pEvtHandler s")
        case True
        with old(2) have "m_pSocketEventHandler e = pEvtHandler" by (simp add: f_def)
        with differ show ?thesis by simp
      next
        case False
        with old(2) have "e = e0" by (simp add: f_def)
        with False src show ?thesis by simp
      qed
    next
      case new
      with extra differ show ?thesis by simp
    qed
  qed
  from kept new none_left show ?thesis
    unfolding f_def q'_def by blast
qed

theorem SetEventHandler_retargets_witness:
  "(9::nat) \<noteq> 0 \<and> m_pEvtHandler busy_socket \<noteq> 0 \<and>
   take (length (dispatcher busy_socket)) (dispatcher (SetEventHandler False 0 9 busy_socket)) =
     [CSocketEvent_error 9 1 read 0, CSocketEvent_error 8 1 read 0,
      CSocketEvent_error 7 2 write 0]"
proof -
  have socket: "m_pEvtHandler busy_socket = 7" "this busy_socket = 1"
    "dispatcher busy_socket =
       [CSocketEvent_error 7 1 read 0, CSocketEvent_error 8 1 read 0,
        CSocketEvent_error 7 2 write 0]"
    by (simp_all add: busy_socket_def)
  from SetEventHandler_retargets [of 9 busy_socket False 0] socket show ?thesis
    by (simp add: CSocketEvent_error_def)
qed

section \<open>Properties of the loop over the resolved addresses\<close>

lemma TryConnectHost_finish_failure:
  assumes "res \<noteq> 0" and "m_pEvtHandler s \<noteq> 0"
  shows "TryConnectHost_finish ai_next fd res t s =
     (0, t,
      s\<lparr>dispatcher := dispatcher s @
             [CSocketEvent_error (m_pEvtHandler s) (m_pSocket t)
                (if ai_next then connection_next else connection) res],
        m_fd := - 1, closed_fds := fd # closed_fds s\<rparr>)"
  using assms by (simp add: TryConnectHost_finish_def SendEvent_def Let_def)

lemma TryConnectHost_failure:
  assumes fail: "attempt_failure msw sys = Some err"
    and handler: "m_pEvtHandler s \<noteq> 0"
    and errors: "length (m_triggered_errors t) = WAIT_EVENTCOUNT"
  shows "\<exists>t' s'. TryConnectHost msw addr ai_next sys t s = Some (0, t', s') \<and>
           dispatcher s' = dispatcher s @
             [CSocketEvent_data (m_pEvtHandler s) (m_pSocket t) hostaddress
                (Some (AddressToString (ni_res addr) (ni_host addr) (ni_port addr)
                         (ai_family addr) True False)),
              CSocketEvent_error (m_pEvtHandler s) (m_pSocket t)
                (if ai_next then connection_next else connection) err] \<and>
           m_pEvtHandler s' = m_pEvtHandler s \<and> m_state s' = m_state s \<and>
           m_pSocket t' = m_pSocket t \<and>
           length (m_triggered_errors t') = WAIT_EVENTCOUNT"
proof (cases "socket_res sys = - 1")
  case True
  with fail have "err = last_error msw (socket_error sys)"
    by (simp add: attempt_failure_def)
  with True handler errors show ?thesis
    by (simp add: TryConnectHost_def Let_def SendEvent_def)
next
  case sock: False
  show ?thesis
  proof (cases "connect_result msw sys = EINPROGRESS")
    case True
    with fail sock obtain e where w: "wait sys = connect_triggered e" and e: "e \<noteq> 0" "err = e"
      by (auto simp: attempt_failure_def split: wait_result.splits if_splits)
    from errors have "(m_triggered_errors t)[0 := e] ! 0 = e"
      by (simp add: WAIT_EVENTCOUNT_def)
    with sock True w e handler errors show ?thesis
      by (simp add: TryConnectHost_def Let_def SendEvent_def TryConnectHost_finish_failure)
  next
    case False
    with fail sock have "connect_result msw sys \<noteq> 0" "err = connect_result msw sys"
      by (auto simp: attempt_failure_def split: if_splits)
    with sock False handler errors show ?thesis
      by (simp add: TryConnectHost_def Let_def SendEvent_def TryConnectHost_finish_failure)
  qed
qed

lemma DoConnect_loop_all_fail:
  assumes "\<forall>(addr, sys) \<in> set addressList. attempt_failure msw sys \<noteq> None"
    and "m_pEvtHandler s \<noteq> 0"
    and "length (m_triggered_errors t) = WAIT_EVENTCOUNT"
  shows "\<exists>t' s'. DoConnect_loop msw addressList t s = Some (completed, t', s') \<and>
           dispatcher s' = dispatcher s @
             failure_events msw (m_pEvtHandler s) (m_pSocket t) addressList \<and>
           m_pEvtHandler s' = m_pEvtHandler s \<and> m_state s' = m_state s \<and>
           m_pSocket t' = m_pSocket t"
  using assms
proof (induction addressList arbitrary: t s)
  case Nil
  then show ?case by simp
next
  case (Cons a rest)
  obtain addr sys where a: "a = (addr, sys)" by (cases a)
  from Cons.prems(1) a obtain err where err: "attempt_failure msw sys = Some err"
    by auto
  from TryConnectHost_failure [OF err Cons.prems(2,3), of addr "rest \<noteq> []"]
  obtain t1 s1 where
    attempt: "TryConnectHost msw addr (rest \<noteq> []) sys t s = Some (0, t1, s1)"
    and q1: "dispatcher s1 = dispatcher s @
       [CSocketEvent_data (m_pEvtHandler s) (m_pSocket t) hostaddress
          (Some (AddressToString (ni_res addr) (ni_host addr) (ni_port addr)
                   (ai_family addr) True False)),
        CSocketEvent_error (m_pEvtHandler s) (m_pSocket t)
          (if rest \<noteq> [] then connection_next else connection) err]"
    and keep: "m_pEvtHandler s1 = m_pEvtHandler s" "m_state s1 = m_state s"
      "m_pSocket t1 = m_pSocket t" "length (m_triggered_errors t1) = WAIT_EVENTCOUNT"
    by blast
  from Cons.prems(1) have rest: "\<forall>(addr, sys) \<in> set rest. attempt_failure msw sys \<noteq> None"
    by simp
  from Cons.prems(2) keep(1) have h1: "m_pEvtHandler s1 \<noteq> 0" by simp
  from Cons.IH [OF rest h1 keep(4)] obtain t' s' where
    loop: "DoConnect_loop msw rest t1 s1 = Some (completed, t', s')"
    and q: "dispatcher s' = dispatcher s1 @
              failure_events msw (m_pEvtHandler s1) (m_pSocket t1) rest"
    and keep': "m_pEvtHandler s' = m_pEvtHandler s1" "m_state s' = m_state s1"
      "m_pSocket t' = m_pSocket t1"
    by blast
  from attempt loop have "DoConnect_loop msw (a # rest) t s = Some (completed, t', s')"
    by (simp add: a)
  moreover from q q1 keep err
  have "dispatcher s' = dispatcher s @
      failure_events msw (m_pEvtHandler s) (m_pSocket t) (a # rest)"
    by (simp add: a)
  ultimately show ?case
    using keep keep' by simp
qed


lemma DoConnect_reaches_loop:
  assumes "m_pHost t \<noteq> None" and "m_pPort t \<noteq> None" and "\<not> m_quit t"
    and "m_pSocket t \<noteq> 0" and "m_state s = connecting"
  shows "DoConnect msw 0 addressList t s =
     (case DoConnect_loop msw addressList (t\<lparr>m_pHost := None, m_pPort := None\<rparr>) s of
        None \<Rightarrow> None
      | Some (returned b, t, s) \<Rightarrow> Some (b, t, s)
      | Some (completed, t, s) \<Rightarrow> Some (False, t, DoConnect_after_loop t s))"
  using assms by (auto simp add: DoConnect_def Let_def)

lemma DoConnect_after_loop_handler:
  assumes "m_pEvtHandler s \<noteq> 0"
  shows "dispatcher (DoConnect_after_loop t s) =
           dispatcher s @ [CSocketEvent_error (m_pEvtHandler s) (m_pSocket t) connection ECONNABORTED]"
    and "m_state (DoConnect_after_loop t s) = closed"
  using assms by (simp_all add: DoConnect_after_loop_def SendEvent_def Let_def)

text \<open>
  Claim C1, amended. For a socket with an event handler: a connection attempt that fails
  makes \<^verbatim>\<open>TryConnectHost\<close> return \<open>0\<close> after sending the host address event and then
  \<^verbatim>\<open>connection_next\<close> with the error if another address follows, \<^verbatim>\<open>connection\<close> with the
  error if the address is the last one. When \<^verbatim>\<open>DoConnect\<close> has resolved the host and every
  attempt fails, it returns \<open>false\<close> with the state set to \<open>closed\<close>, and the events it has
  sent are those of the attempts followed by \<^verbatim>\<open>connection\<close> with \<^verbatim>\<open>ECONNABORTED\<close>: the
  last event is sent in every case, also after the \<^verbatim>\<open>connection\<close> event of the last
  attempt.
\<close>

theorem DoConnect_all_attempts_fail:
  assumes "\<forall>(addr, sys) \<in> set addressList. attempt_failure msw sys \<noteq> None"
    and "m_pEvtHandler s \<noteq> 0"
    and "length (m_triggered_errors t) = WAIT_EVENTCOUNT"
    and "m_pHost t \<noteq> None" and "m_pPort t \<noteq> None" and "\<not> m_quit t"
    and "m_pSocket t \<noteq> 0" and "m_state s = connecting"
  shows "(\<forall>addr sys ai_next err. attempt_failure msw sys = Some err \<longrightarrow>
            map_option fst (TryConnectHost msw addr ai_next sys t s) = Some 0 \<and>
            map_option (dispatcher \<circ> snd \<circ> snd) (TryConnectHost msw addr ai_next sys t s) =
              Some (dispatcher s @
                    [CSocketEvent_data (m_pEvtHandler s) (m_pSocket t) hostaddress
                       (Some (AddressToString (ni_res addr) (ni_host addr) (ni_port addr)
                                (ai_family addr) True False)),
                     CSocketEvent_error (m_pEvtHandler s) (m_pSocket t)
                       (if ai_next then connection_next else connection) err])) \<and>
         map_option fst (DoConnect msw 0 addressList t s) = Some False \<and>
         map_option (m_state \<circ> snd \<circ> snd) (DoConnect msw 0 addressList t s) = Some closed \<and>
         map_option (dispatcher \<circ> snd \<circ> snd) (DoConnect msw 0 addressList t s) =
           Some (dispatcher s @
                 failure_events msw (m_pEvtHandler s) (m_pSocket t) addressList @
                 [CSocketEvent_error (m_pEvtHandler s) (m_pSocket t) connection ECONNABORTED])"
proof -
  let ?t = "t\<lparr>m_pHost := None, m_pPort := None\<rparr>"
  have "length (m_triggered_errors ?t) = WAIT_EVENTCOUNT"
    using assms(3) by simp
  from DoConnect_loop_all_fail [OF assms(1,2) this] obtain t' s' where
    loop: "DoConnect_loop msw addressList ?t s = Some (completed, t', s')"
    and q: "dispatcher s' = dispatcher s @
              failure_events msw (m_pEvtHandler s) (m_pSocket t) addressList"
    and keep: "m_pEvtHandler s' = m_pEvtHandler s" "m_pSocket t' = m_pSocket t"
    by auto
  have "DoConnect msw 0 addressList t s = Some (False, t', DoConnect_after_loop t' s')"
    using DoConnect_reaches_loop [OF assms(4-8)] loop by simp
  moreover have "m_pEvtHandler s' \<noteq> 0"
    using keep(1) assms(2) by simp
  note DoConnect_after_loop_handler [OF this, of t']
  ultimately have whole:
    "map_option fst (DoConnect msw 0 addressList t s) = Some False \<and>
     map_option (m_state \<circ> snd \<circ> snd) (DoConnect msw 0 addressList t s) = Some closed \<and>
     map_option (dispatcher \<circ> snd \<circ> snd) (DoConnect msw 0 addressList t s) =
       Some (dispatcher s @
             failure_events msw (m_pEvtHandler s) (m_pSocket t) addressList @
             [CSocketEvent_error (m_pEvtHandler s) (m_pSocket t) connection ECONNABORTED])"
    using q keep by simp
  have single: "map_option fst (TryConnectHost msw addr ai_next sys t s) = Some 0 \<and>
      map_option (dispatcher \<circ> snd \<circ> snd) (TryConnectHost msw addr ai_next sys t s) =
        Some (dispatcher s @
              [CSocketEvent_data (m_pEvtHandler s) (m_pSocket t) hostaddress
                 (Some (AddressToString (ni_res addr) (ni_host addr) (ni_port addr)
                          (ai_family addr) True False)),
               CSocketEvent_error (m_pEvtHandler s) (m_pSocket t)
                 (if ai_next then connection_next else connection) err])"
    if "attempt_failure msw sys = Some err" for addr sys ai_next err
    using TryConnectHost_failure [OF that assms(2,3), of addr ai_next] by auto
  from single whole show ?thesis
    by blast
qed

theorem DoConnect_all_attempts_fail_witness:
  "attempt_failure False unreachable = Some ENETUNREACH \<and>
   attempt_failure False refused = Some ECONNREFUSED \<and>
   m_pEvtHandler connecting_socket \<noteq> 0 \<and>
   length (m_triggered_errors connecting_worker) = WAIT_EVENTCOUNT \<and>
   m_pHost connecting_worker \<noteq> None \<and> m_pPort connecting_worker \<noteq> None \<and>
   \<not> m_quit connecting_worker \<and> m_pSocket connecting_worker \<noteq> 0 \<and>
   m_state connecting_socket = connecting \<and>
   map_option fst
     (DoConnect False 0 [(loopback, unreachable), (loopback, refused)]
        connecting_worker connecting_socket) = Some False \<and>
   map_option (m_state \<circ> snd \<circ> snd)
     (DoConnect False 0 [(loopback, unreachable), (loopback, refused)]
        connecting_worker connecting_socket) = Some closed \<and>
   map_option (dispatcher \<circ> snd \<circ> snd)
     (DoConnect False 0 [(loopback, unreachable), (loopback, refused)]
        connecting_worker connecting_socket) =
     Some [CSocketEvent_data 7 1 hostaddress (Some ''127.0.0.1:21''),
           CSocketEvent_error 7 1 connection_next ENETUNREACH,
           CSocketEvent_data 7 1 hostaddress (Some ''127.0.0.1:21''),
           CSocketEvent_error 7 1 connection ECONNREFUSED,
           CSocketEvent_error 7 1 connection ECONNABORTED]"
proof -
  have fail: "attempt_failure False unreachable = Some ENETUNREACH"
    "attempt_failure False refused = Some ECONNREFUSED"
    by (simp_all add: attempt_failure_def connect_result_def unreachable_def refused_def
        errno_defs)
  have state: "m_pEvtHandler connecting_socket = 7" "dispatcher connecting_socket = []"
    "m_state connecting_socket = connecting"
    "length (m_triggered_errors connecting_worker) = WAIT_EVENTCOUNT"
    "m_pHost connecting_worker \<noteq> None" "m_pPort connecting_worker \<noteq> None"
    "\<not> m_quit connecting_worker" "m_pSocket connecting_worker = 1"
    by (simp_all add: connecting_socket_def connecting_worker_def WAIT_EVENTCOUNT_def)
  have shown: "AddressToString (ni_res loopback) (ni_host loopback) (ni_port loopback)
       (ai_family loopback) True False = ''127.0.0.1:21''"
    by (simp add: AddressToString_def loopback_def AF_INET_def AF_INET6_def)
  from DoConnect_all_attempts_fail
    [of "[(loopback, unreachable), (loopback, refused)]" False connecting_socket
        connecting_worker]
    fail state shown
  show ?thesis
    by simp
qed

text \<open>
  Claim C1, as stated, fails: with a single resolved address whose connection is refused,
  the loop sends a \<^verbatim>\<open>connection\<close> event with \<^verbatim>\<open>ECONNREFUSED\<close>, and the code after the
  loop sends \<^verbatim>\<open>connection\<close> with \<^verbatim>\<open>ECONNABORTED\<close> all the same.
\<close>

theorem DoConnect_connection_event_twice:
  "map_option fst
     (DoConnect_loop False [(loopback, refused)]
        (connecting_worker\<lparr>m_pHost := None, m_pPort := None\<rparr>) connecting_socket) =
     Some completed \<and>
   map_option (dispatcher \<circ> snd \<circ> snd)
     (DoConnect_loop False [(loopback, refused)]
        (connecting_worker\<lparr>m_pHost := None, m_pPort := None\<rparr>) connecting_socket) =
     Some [CSocketEvent_data 7 1 hostaddress (Some ''127.0.0.1:21''),
           CSocketEvent_error 7 1 connection ECONNREFUSED] \<and>
   map_option (dispatcher \<circ> snd \<circ> snd)
     (DoConnect False 0 [(loopback, refused)] connecting_worker connecting_socket) =
     Some [CSocketEvent_data 7 1 hostaddress (Some ''127.0.0.1:21''),
           CSocketEvent_error 7 1 connection ECONNREFUSED,
           CSocketEvent_error 7 1 connection ECONNABORTED]"
  by (simp add: DoConnect_def DoConnect_after_loop_def TryConnectHost_def
      TryConnectHost_finish_def connect_result_def SendEvent_def Let_def
      connecting_worker_def connecting_socket_def loopback_def refused_def
      AddressToString_def errno_defs AF_INET_def AF_INET6_def wait_defs)

end
